theory Spec2Isabelle
  imports Complex_Main
begin

section \<open>blend\_dtm.py: a terrain model built from a DEM and an image\<close>

text \<open>
  A shallow embedding of \<^verbatim>\<open>tools/terrain/blend_dtm.py\<close>. The script drives Blender through
  its Python API, runs two Python queries and one raster tool in separate processes,
  and saves a scene. The embedding threads an explicit \<open>world\<close> through every function:
  the two output streams, the file system, the command lines handed to
  \<^verbatim>\<open>subprocess\<close>, and the part of Blender's data the script reads or writes. What the
  host decides (what a command prints, how \<^verbatim>\<open>float\<close> reads a literal, whether a path
  can be written) is a field of an \<open>env\<close> record, so every theorem holds for every host.

  Numbers: a Python \<^verbatim>\<open>int\<close> and a finite \<^verbatim>\<open>float\<close> are both an exact real number, and a
  \<^verbatim>\<open>float\<close> can also be \<^verbatim>\<open>inf\<close>, \<^verbatim>\<open>-inf\<close> or \<^verbatim>\<open>nan\<close>, which \<^verbatim>\<open>float\<close> reads from a string
  as well. The script's one arithmetic expression (multiply, \<^verbatim>\<open>abs\<close>, divide by two,
  \<^verbatim>\<open>max\<close>) follows Python on these values and is exact on finite ones; the rounding of
  binary floating point is outside the model. The attributes of Blender that only ever
  receive a literal of the script are plain reals. A Python list and a Python tuple
  are both a HOL list. An object of \<^verbatim>\<open>bpy.data\<close> is referred to by its position in
  its collection, and a collection keeps creation order.
\<close>

subsection \<open>Exceptions and programs\<close>

text \<open>The instances of \<^verbatim>\<open>Exception\<close> that can occur; \<open>SubprocessFailure\<close> stands for
  whatever the \<^verbatim>\<open>subprocess\<close> module raises.\<close>

datatype exn =
    ValueError
  | IndexError
  | AttributeError
  | RuntimeError
  | SubprocessFailure string

datatype file_entry = ImageFile nat nat | DataFile

datatype number = Finite real | PosInf | NegInf | NaN

record image =
  image_filepath :: string
  image_size :: "nat \<times> nat"
  colorspace_name :: string
  packed :: bool

record texture =
  texture_name :: string
  texture_type :: string
  texture_image :: "nat option"
  use_normal_map :: bool

record texture_slot =
  slot_texture :: nat
  use_map_color_diffuse :: bool
  use_map_normal :: bool
  normal_factor :: real

record material =
  material_name :: string
  specular_intensity :: real
  active_texture_index :: nat
  texture_slots :: "texture_slot option list"
  use_textures :: "bool list"

datatype modifier_type = DISPLACE | DECIMATE

record modifier =
  modifier_type :: modifier_type
  modifier_name :: string
  modifier_texture :: "nat option"
  strength :: real
  direction :: string
  ratio :: real
  show_viewport :: bool

datatype object_data = MeshPlane | MeshCube | Lamp string | OtherData

record object =
  object_name :: string
  object_data :: object_data
  location :: "real \<times> real \<times> real"
  scale :: "number \<times> number \<times> number"
  select :: bool
  active_material :: "nat option"
  modifiers :: "modifier list"
  applied_modifiers :: "modifier list"
  subdivide_cuts :: "number list"

record space =
  space_type :: string
  viewport_shade :: string
  clip_end :: real

record area =
  area_type :: string
  spaces :: "space list"

record scene_settings =
  render_engine :: string
  material_mode :: string
  unit_system :: string
  frame_type :: string
  horizon_color :: "real \<times> real \<times> real"
  show_framerate_profile :: bool

record world =
  stdout :: "string list"
  stderr :: "string list"
  files :: "string \<Rightarrow> file_entry option"
  commands :: "string list"
  sys_path :: "string list"
  data_images :: "image list"
  data_textures :: "texture list"
  data_materials :: "material list"
  data_filepath :: string
  scene_objects :: "object list"
  active :: "nat option"
  object_mode :: string
  scene :: scene_settings
  areas :: "area list"
  saved :: "(string \<times> bool \<times> bool) list"

text \<open>
  The host. \<open>float_of_string\<close> is the builtin \<^verbatim>\<open>float\<close> on a string (\<open>None\<close>:
  it raises \<^verbatim>\<open>ValueError\<close>); \<open>python_default\<close> is the value of
  \<^verbatim>\<open>'python%i.%i' % (sys.version_info.major, sys.version_info.minor)\<close>; \<open>os_pathsep\<close> is
  \<^verbatim>\<open>os.pathsep\<close>; \<open>getoutput\<close> is \<^verbatim>\<open>subprocess.getoutput\<close>, the text a command prints
  (the two queries of this script only print); \<open>getstatusoutput\<close> is
  \<^verbatim>\<open>subprocess.getstatusoutput\<close>, which may also change the file system (the raster
  tool writes its output file); \<open>can_save\<close> tells whether Blender can write a path.
\<close>

record env =
  float_of_string :: "string \<Rightarrow> number option"
  python_default :: string
  os_pathsep :: string
  getoutput :: "string \<Rightarrow> exn + string"
  getstatusoutput ::
    "string \<Rightarrow> (string \<Rightarrow> file_entry option) \<Rightarrow> (exn + int \<times> string) \<times> (string \<Rightarrow> file_entry option)"
  can_save :: "string \<Rightarrow> bool"

type_synonym 'a prog = "world \<Rightarrow> (exn + 'a) \<times> world"

definition ret :: "'a \<Rightarrow> 'a prog" where
  "ret x = (\<lambda>w. (Inr x, w))"

definition raise :: "exn \<Rightarrow> 'a prog" where
  "raise e = (\<lambda>w. (Inl e, w))"

definition then_do :: "'a prog \<Rightarrow> ('a \<Rightarrow> 'b prog) \<Rightarrow> 'b prog" where
  "then_do m f = (\<lambda>w. case m w of (Inl e, w') \<Rightarrow> (Inl e, w') | (Inr x, w') \<Rightarrow> f x w')"

definition modify :: "(world \<Rightarrow> world) \<Rightarrow> unit prog" where
  "modify f = (\<lambda>w. (Inr (), f w))"

definition reading :: "(world \<Rightarrow> 'a) \<Rightarrow> 'a prog" where
  "reading f = (\<lambda>w. (Inr (f w), w))"

definition lift :: "exn + 'a \<Rightarrow> 'a prog" where
  "lift r = (\<lambda>w. (r, w))"

fun seq :: "unit prog list \<Rightarrow> unit prog" where
  "seq [] = ret ()"
| "seq (m # ms) = then_do m (\<lambda>_. seq ms)"

subsection \<open>Python builtins\<close>

definition py_print :: "string \<Rightarrow> unit prog" where
  "py_print s = modify (\<lambda>w. w\<lparr>stdout := stdout w @ [s]\<rparr>)"

text \<open>\<^verbatim>\<open>xs[i]\<close> for \<open>i \<ge> 0\<close>, and \<^verbatim>\<open>xs[-1]\<close> as the position it denotes.\<close>

definition py_getitem :: "'a list \<Rightarrow> nat \<Rightarrow> exn + 'a" where
  "py_getitem xs i = (if i < length xs then Inr (xs ! i) else Inl IndexError)"

definition last_index :: "'a list \<Rightarrow> exn + nat" where
  "last_index xs = (if xs = [] then Inl IndexError else Inr (length xs - 1))"

text \<open>\<^verbatim>\<open>xs.index(x)\<close>: the first position of \<open>x\<close>.\<close>

definition py_index :: "'a list \<Rightarrow> 'a \<Rightarrow> exn + nat" where
  "py_index xs x = (if x \<in> set xs then Inr (length (takeWhile (\<lambda>y. y \<noteq> x) xs)) else Inl ValueError)"

text \<open>\<^verbatim>\<open>s.split(sep)\<close>: the pieces between the occurrences of \<open>sep\<close>, found from the
  left and not overlapping; an empty separator raises.\<close>

fun split_on :: "string \<Rightarrow> string \<Rightarrow> string \<Rightarrow> string list" where
  "split_on sep acc [] = [rev acc]"
| "split_on sep acc (c # cs) =
     (if take (length sep) (c # cs) = sep
      then rev acc # split_on sep [] (drop (length sep - 1) cs)
      else split_on sep (c # acc) cs)"

definition py_split :: "string \<Rightarrow> string \<Rightarrow> exn + string list" where
  "py_split s sep = (if sep = [] then Inl ValueError else Inr (split_on sep [] s))"

text \<open>\<^verbatim>\<open>[float(value) for value in pieces]\<close>: the first piece that is no float literal
  raises.\<close>

fun float_all :: "(string \<Rightarrow> number option) \<Rightarrow> string list \<Rightarrow> exn + number list" where
  "float_all pf [] = Inr []"
| "float_all pf (s # ss) =
     (case pf s of
        None \<Rightarrow> Inl ValueError
      | Some v \<Rightarrow> (case float_all pf ss of Inl e \<Rightarrow> Inl e | Inr vs \<Rightarrow> Inr (v # vs)))"

text \<open>
  The arithmetic of the script on numbers. \<^verbatim>\<open>abs(x)\<close>; \<^verbatim>\<open>n * x\<close> for a pixel count \<open>n\<close>
  (an \<^verbatim>\<open>int\<close> small enough to convert to a \<^verbatim>\<open>float\<close>), where zero times an infinity is
  \<^verbatim>\<open>nan\<close>; \<^verbatim>\<open>x / 2\<close>; \<^verbatim>\<open>x < y\<close>, which is false as soon as one side is \<^verbatim>\<open>nan\<close>; and
  \<^verbatim>\<open>max(x, y)\<close>, which is \<open>y\<close> when \<^verbatim>\<open>y > x\<close> and \<open>x\<close> otherwise.
\<close>

fun py_abs :: "number \<Rightarrow> number" where
  "py_abs (Finite r) = Finite \<bar>r\<bar>"
| "py_abs PosInf = PosInf"
| "py_abs NegInf = PosInf"
| "py_abs NaN = NaN"

fun py_times :: "nat \<Rightarrow> number \<Rightarrow> number" where
  "py_times n (Finite r) = Finite (real n * r)"
| "py_times n PosInf = (if n = 0 then NaN else PosInf)"
| "py_times n NegInf = (if n = 0 then NaN else NegInf)"
| "py_times n NaN = NaN"

fun py_half :: "number \<Rightarrow> number" where
  "py_half (Finite r) = Finite (r / 2)"
| "py_half PosInf = PosInf"
| "py_half NegInf = NegInf"
| "py_half NaN = NaN"

fun py_less :: "number \<Rightarrow> number \<Rightarrow> bool" where
  "py_less (Finite a) (Finite b) = (a < b)"
| "py_less (Finite a) PosInf = True"
| "py_less NegInf (Finite b) = True"
| "py_less NegInf PosInf = True"
| "py_less x y = False"

definition py_max :: "number \<Rightarrow> number \<Rightarrow> number" where
  "py_max x y = (if py_less x y then y else x)"

subsection \<open>Blender: the operators and attributes the script uses\<close>

text \<open>
  Each definition below is one operator or attribute access of \<^verbatim>\<open>bpy\<close>, with the effect
  it has on the modelled data. A new data block is appended to its collection with
  Blender's initial values; an operator whose context is missing raises
  \<^verbatim>\<open>RuntimeError\<close>; an attribute access on \<^verbatim>\<open>None\<close> raises \<^verbatim>\<open>AttributeError\<close>.
\<close>

definition update_nth :: "nat \<Rightarrow> ('a \<Rightarrow> 'a) \<Rightarrow> 'a list \<Rightarrow> 'a list" where
  "update_nth i f xs = xs[i := f (xs ! i)]"

definition on_image :: "nat \<Rightarrow> (image \<Rightarrow> image) \<Rightarrow> unit prog" where
  "on_image i f = modify (\<lambda>w. w\<lparr>data_images := update_nth i f (data_images w)\<rparr>)"

definition on_texture :: "nat \<Rightarrow> (texture \<Rightarrow> texture) \<Rightarrow> unit prog" where
  "on_texture i f = modify (\<lambda>w. w\<lparr>data_textures := update_nth i f (data_textures w)\<rparr>)"

definition on_material :: "nat \<Rightarrow> (material \<Rightarrow> material) \<Rightarrow> unit prog" where
  "on_material i f = modify (\<lambda>w. w\<lparr>data_materials := update_nth i f (data_materials w)\<rparr>)"

definition on_object :: "nat \<Rightarrow> (object \<Rightarrow> object) \<Rightarrow> unit prog" where
  "on_object i f = modify (\<lambda>w. w\<lparr>scene_objects := update_nth i f (scene_objects w)\<rparr>)"

definition new_data_texture :: texture where
  "new_data_texture =
     \<lparr>texture_name = ''Texture'', texture_type = ''NONE'', texture_image = None,
      use_normal_map = False\<rparr>"

text \<open>A new material shows every texture slot, and its active slot is the first.\<close>

definition new_data_material :: material where
  "new_data_material =
     \<lparr>material_name = ''Material'', specular_intensity = 1 / 2, active_texture_index = 0,
      texture_slots = replicate 18 None, use_textures = replicate 18 True\<rparr>"

definition new_texture_slot :: "nat \<Rightarrow> texture_slot" where
  "new_texture_slot t =
     \<lparr>slot_texture = t, use_map_color_diffuse = True, use_map_normal = False,
      normal_factor = 1\<rparr>"

definition new_modifier :: "modifier_type \<Rightarrow> modifier" where
  "new_modifier ty =
     \<lparr>modifier_type = ty,
      modifier_name = (case ty of DISPLACE \<Rightarrow> ''Displace'' | DECIMATE \<Rightarrow> ''Decimate''),
      modifier_texture = None, strength = 1, direction = ''NORMAL'', ratio = 1,
      show_viewport = True\<rparr>"

definition new_scene_object :: "string \<Rightarrow> object_data \<Rightarrow> real \<times> real \<times> real \<Rightarrow> object" where
  "new_scene_object name data loc =
     \<lparr>object_name = name, object_data = data, location = loc,
      scale = (Finite 1, Finite 1, Finite 1),
      select = True, active_material = None, modifiers = [], applied_modifiers = [],
      subdivide_cuts = []\<rparr>"

text \<open>\<^verbatim>\<open>bpy.ops.texture.new()\<close>, \<^verbatim>\<open>bpy.ops.material.new()\<close>.\<close>

definition ops_texture_new :: "unit prog" where
  "ops_texture_new = modify (\<lambda>w. w\<lparr>data_textures := data_textures w @ [new_data_texture]\<rparr>)"

definition ops_material_new :: "unit prog" where
  "ops_material_new = modify (\<lambda>w. w\<lparr>data_materials := data_materials w @ [new_data_material]\<rparr>)"

text \<open>\<^verbatim>\<open>bpy.ops.image.open(filepath=...)\<close>: a path that holds no image is an operator
  error.\<close>

definition ops_image_open :: "string \<Rightarrow> unit prog" where
  "ops_image_open filepath = (\<lambda>w.
     case files w filepath of
       Some (ImageFile wd ht) \<Rightarrow>
         (Inr (), w\<lparr>data_images := data_images w @
            [\<lparr>image_filepath = filepath, image_size = (wd, ht), colorspace_name = ''sRGB'',
              packed = False\<rparr>]\<rparr>)
     | _ \<Rightarrow> (Inl RuntimeError, w))"

text \<open>\<^verbatim>\<open>bpy.ops.object.select_all(action=...)\<close>, \<^verbatim>\<open>bpy.ops.object.delete()\<close> (the selected
  objects go; the active object stays active only if it stays), and the operators that
  add an object, which becomes the active one.\<close>

definition ops_object_select_all :: "string \<Rightarrow> unit prog" where
  "ops_object_select_all action =
     modify (\<lambda>w. w\<lparr>scene_objects :=
       map (\<lambda>ob. ob\<lparr>select := (if action = ''SELECT'' then True
                                else if action = ''DESELECT'' then False
                                else select ob)\<rparr>) (scene_objects w)\<rparr>)"

definition ops_object_delete :: "unit prog" where
  "ops_object_delete =
     modify (\<lambda>w. w\<lparr>scene_objects := filter (\<lambda>ob. \<not> select ob) (scene_objects w),
       active := (case active w of
                    None \<Rightarrow> None
                  | Some i \<Rightarrow>
                      if i < length (scene_objects w) \<and> \<not> select (scene_objects w ! i)
                      then Some (length (filter (\<lambda>ob. \<not> select ob) (take i (scene_objects w))))
                      else None)\<rparr>)"

definition ops_object_add :: "object \<Rightarrow> unit prog" where
  "ops_object_add ob =
     modify (\<lambda>w. w\<lparr>scene_objects := scene_objects w @ [ob],
                   active := Some (length (scene_objects w))\<rparr>)"

definition ops_object_lamp_add :: "string \<Rightarrow> real \<times> real \<times> real \<Rightarrow> unit prog" where
  "ops_object_lamp_add ty loc = ops_object_add (new_scene_object ''Lamp'' (Lamp ty) loc)"

definition ops_mesh_primitive_plane_add :: "unit prog" where
  "ops_mesh_primitive_plane_add = ops_object_add (new_scene_object ''Plane'' MeshPlane (0, 0, 0))"

text \<open>\<^verbatim>\<open>bpy.context.object\<close>, read for an attribute access.\<close>

definition context_object :: "nat prog" where
  "context_object = (\<lambda>w. case active w of None \<Rightarrow> (Inl AttributeError, w) | Some i \<Rightarrow> (Inr i, w))"

text \<open>\<^verbatim>\<open>bpy.ops.object.mode_set(mode=...)\<close> and \<^verbatim>\<open>bpy.ops.mesh.subdivide(number_cuts=...)\<close>.
  The mesh keeps the value each subdivision was asked for, as the script passed it.\<close>

definition ops_object_mode_set :: "string \<Rightarrow> unit prog" where
  "ops_object_mode_set mode = (\<lambda>w.
     case active w of
       None \<Rightarrow> (Inl RuntimeError, w)
     | Some i \<Rightarrow> (Inr (), w\<lparr>object_mode := mode\<rparr>))"

definition ops_mesh_subdivide :: "number \<Rightarrow> unit prog" where
  "ops_mesh_subdivide number_cuts = (\<lambda>w.
     case active w of
       None \<Rightarrow> (Inl RuntimeError, w)
     | Some i \<Rightarrow>
         if object_mode w = ''EDIT''
         then on_object i (\<lambda>ob. ob\<lparr>subdivide_cuts := subdivide_cuts ob @ [number_cuts]\<rparr>) w
         else (Inl RuntimeError, w))"

text \<open>\<^verbatim>\<open>bpy.ops.object.modifier_add(type=...)\<close> puts a new modifier last on the active
  object's stack; \<^verbatim>\<open>bpy.ops.object.modifier_apply(modifier=...)\<close> takes the modifier of
  that name off the stack and bakes it into the mesh.\<close>

definition ops_object_modifier_add :: "modifier_type \<Rightarrow> unit prog" where
  "ops_object_modifier_add ty = (\<lambda>w.
     case active w of
       None \<Rightarrow> (Inl RuntimeError, w)
     | Some i \<Rightarrow> on_object i (\<lambda>ob. ob\<lparr>modifiers := modifiers ob @ [new_modifier ty]\<rparr>) w)"

definition ops_object_modifier_apply :: "string \<Rightarrow> unit prog" where
  "ops_object_modifier_apply name = (\<lambda>w.
     case active w of
       None \<Rightarrow> (Inl RuntimeError, w)
     | Some i \<Rightarrow>
         (case find (\<lambda>m. modifier_name m = name) (modifiers (scene_objects w ! i)) of
            None \<Rightarrow> (Inl RuntimeError, w)
          | Some m \<Rightarrow>
              on_object i (\<lambda>ob. ob\<lparr>modifiers := remove1 m (modifiers ob),
                                      applied_modifiers := applied_modifiers ob @ [m]\<rparr>) w))"

text \<open>\<^verbatim>\<open>material.active_texture = t\<close> fills the active slot; \<^verbatim>\<open>material.active_texture\<close>
  reads it for an attribute access; \<^verbatim>\<open>material.active_texture_index += 1\<close> stays within
  the eighteen slots.\<close>

definition set_active_texture :: "nat \<Rightarrow> nat \<Rightarrow> unit prog" where
  "set_active_texture mat t =
     on_material mat (\<lambda>m. m\<lparr>texture_slots :=
       update_nth (active_texture_index m)
         (\<lambda>sl. case sl of None \<Rightarrow> Some (new_texture_slot t)
                | Some s \<Rightarrow> Some (s\<lparr>slot_texture := t\<rparr>))
         (texture_slots m)\<rparr>)"

definition active_texture :: "nat \<Rightarrow> nat prog" where
  "active_texture mat = (\<lambda>w.
     let m = data_materials w ! mat in
     case py_getitem (texture_slots m) (active_texture_index m) of
       Inr (Some sl) \<Rightarrow> (Inr (slot_texture sl), w)
     | _ \<Rightarrow> (Inl AttributeError, w))"

definition increment_active_texture_index :: "nat \<Rightarrow> unit prog" where
  "increment_active_texture_index mat =
     on_material mat (\<lambda>m. m\<lparr>active_texture_index := min 17 (active_texture_index m + 1)\<rparr>)"

text \<open>\<^verbatim>\<open>obj.active_material\<close>, read for an attribute access.\<close>

definition object_active_material :: "nat \<Rightarrow> nat prog" where
  "object_active_material obj = (\<lambda>w.
     case active_material (scene_objects w ! obj) of
       None \<Rightarrow> (Inl AttributeError, w)
     | Some m \<Rightarrow> (Inr m, w))"

text \<open>\<^verbatim>\<open>bpy.ops.file.pack_all()\<close> and \<^verbatim>\<open>bpy.ops.wm.save_mainfile(...)\<close>.\<close>

definition ops_file_pack_all :: "unit prog" where
  "ops_file_pack_all =
     modify (\<lambda>w. w\<lparr>data_images := map (\<lambda>im. im\<lparr>packed := True\<rparr>) (data_images w)\<rparr>)"

definition ops_wm_save_mainfile :: "env \<Rightarrow> string \<Rightarrow> bool \<Rightarrow> bool \<Rightarrow> unit prog" where
  "ops_wm_save_mainfile host filepath check_existing compress = (\<lambda>w.
     if can_save host filepath
     then (Inr (), w\<lparr>saved := saved w @ [(filepath, check_existing, compress)]\<rparr>)
     else (Inl RuntimeError, w))"

subsection \<open>The script\<close>

definition new_texture :: "nat prog" where
  "new_texture =
     then_do ops_texture_new (\<lambda>_.
     then_do (reading data_textures) (\<lambda>ts. lift (last_index ts)))"

definition new_material :: "nat prog" where
  "new_material =
     then_do ops_material_new (\<lambda>_.
     then_do (reading data_materials) (\<lambda>ms. lift (last_index ms)))"

definition open_image :: "string \<Rightarrow> nat prog" where
  "open_image filepath =
     then_do (ops_image_open filepath) (\<lambda>_.
     then_do (reading data_images) (\<lambda>ims. lift (last_index ims)))"

definition new_image_texture :: "nat \<Rightarrow> nat \<Rightarrow> string \<Rightarrow> nat prog" where
  "new_image_texture mat img name =
     then_do new_texture (\<lambda>t.
     then_do (set_active_texture mat t) (\<lambda>_.
     then_do (active_texture mat) (\<lambda>t1.
     then_do (on_texture t1 (\<lambda>tx. tx\<lparr>texture_name := name\<rparr>)) (\<lambda>_.
     then_do (active_texture mat) (\<lambda>t2.
     then_do (on_texture t2 (\<lambda>tx. tx\<lparr>texture_type := ''IMAGE''\<rparr>)) (\<lambda>_.
     then_do (active_texture mat) (\<lambda>t3.
     then_do (on_texture t3 (\<lambda>tx. tx\<lparr>texture_image := Some img\<rparr>)) (\<lambda>_.
     active_texture mat))))))))"

definition new_plane :: "string \<Rightarrow> number \<times> number \<times> number \<Rightarrow> nat prog" where
  "new_plane name sc =
     then_do (ops_object_select_all ''DESELECT'') (\<lambda>_.
     then_do ops_mesh_primitive_plane_add (\<lambda>_.
     then_do context_object (\<lambda>ob1.
     then_do (on_object ob1 (\<lambda>ob. ob\<lparr>scale := sc\<rparr>)) (\<lambda>_.
     then_do context_object (\<lambda>ob2.
     then_do (on_object ob2 (\<lambda>ob. ob\<lparr>object_name := name\<rparr>)) (\<lambda>_.
     context_object))))))"

definition select_only :: "nat \<Rightarrow> unit prog" where
  "select_only obj =
     seq [ops_object_select_all ''DESELECT'',
          on_object obj (\<lambda>ob. ob\<lparr>select := True\<rparr>),
          modify (\<lambda>w. w\<lparr>active := Some obj\<rparr>)]"

definition subdivide :: "nat \<Rightarrow> number \<Rightarrow> nat prog" where
  "subdivide obj number_cuts =
     then_do (seq [select_only obj,
                   ops_object_mode_set ''EDIT'',
                   ops_mesh_subdivide number_cuts,
                   ops_object_mode_set ''OBJECT'']) (\<lambda>_.
     ret obj)"

definition set_viewport :: "string \<Rightarrow> real \<Rightarrow> unit prog" where
  "set_viewport shade clip =
     modify (\<lambda>w. w\<lparr>areas :=
       map (\<lambda>a. if area_type a = ''VIEW_3D''
                 then a\<lparr>spaces :=
                        map (\<lambda>sp. if space_type sp = ''VIEW_3D''
                                   then sp\<lparr>viewport_shade := shade, clip_end := clip\<rparr>
                                   else sp) (spaces a)\<rparr>
                 else a) (areas w)\<rparr>)"

text \<open>\<^verbatim>\<open>save\<close>: a missing or empty path means the file Blender has open.\<close>

definition save :: "env \<Rightarrow> string option \<Rightarrow> bool \<Rightarrow> bool \<Rightarrow> unit prog" where
  "save host filepath check_existing compress =
     then_do (reading data_filepath) (\<lambda>current.
     ops_wm_save_mainfile host
       (if filepath = None \<or> filepath = Some [] then current else the filepath)
       check_existing compress)"

definition setup_scene :: "unit prog" where
  "setup_scene =
     seq [ops_object_select_all ''SELECT'',
          ops_object_delete,
          ops_object_lamp_add ''SUN'' (0, 0, 300),
          modify (\<lambda>w. w\<lparr>scene := (scene w)\<lparr>render_engine := ''BLENDER_GAME''\<rparr>\<rparr>),
          modify (\<lambda>w. w\<lparr>scene := (scene w)\<lparr>material_mode := ''GLSL''\<rparr>\<rparr>),
          modify (\<lambda>w. w\<lparr>scene := (scene w)\<lparr>unit_system := ''METRIC''\<rparr>\<rparr>),
          modify (\<lambda>w. w\<lparr>scene := (scene w)\<lparr>frame_type := ''EXTEND''\<rparr>\<rparr>),
          set_viewport ''TEXTURED'' 10000,
          modify (\<lambda>w. w\<lparr>scene := (scene w)\<lparr>horizon_color := (5 / 100, 22 / 100, 4 / 10)\<rparr>\<rparr>),
          modify (\<lambda>w. w\<lparr>scene := (scene w)\<lparr>show_framerate_profile := True\<rparr>\<rparr>)]"

definition usage_text :: string where
  "usage_text = ''usage: blender -P blend_dtm.py -- file_dem.tiff file_img.tiff'' @ [CHR 0x0A]"

definition usage :: "unit prog" where
  "usage = modify (\<lambda>w. w\<lparr>stderr := stderr w @ [usage_text]\<rparr>)"

text \<open>\<^verbatim>\<open>ext_exec\<close>: the command line is \<^verbatim>\<open>python -c"cmd"\<close>.\<close>

definition ext_exec :: "env \<Rightarrow> string \<Rightarrow> string option \<Rightarrow> string prog" where
  "ext_exec host cmd python =
     (let python1 = (if python = None \<or> python = Some [] then python_default host
                     else the python);
          line = python1 @ '' -c'' @ [CHR 0x22] @ cmd @ [CHR 0x22]
      in then_do (modify (\<lambda>w. w\<lparr>commands := commands w @ [line]\<rparr>)) (\<lambda>_.
         lift (getoutput host line)))"

definition python_path_query :: string where
  "python_path_query = ''import os,sys;print(os.pathsep.join(sys.path))''"

definition fix_python_path :: "env \<Rightarrow> string option \<Rightarrow> unit prog" where
  "fix_python_path host python =
     then_do (ext_exec host python_path_query None) (\<lambda>pythonpath.
     then_do (lift (py_split pythonpath (os_pathsep host))) (\<lambda>entries.
     modify (\<lambda>w. w\<lparr>sys_path := sys_path w @ entries\<rparr>)))"

definition identity_transform :: "number list" where
  "identity_transform = [Finite 0, Finite 1, Finite 0, Finite 0, Finite 0, Finite 1]"

definition gdal_query :: "string \<Rightarrow> string" where
  "gdal_query filepath =
     ''import gdal,gdalconst;print(gdal.Open('' @ [CHR 0x27] @ filepath @ [CHR 0x27]
       @ '', gdalconst.GA_ReadOnly).GetGeoTransform())''"

text \<open>
  \<^verbatim>\<open>geotransform\<close>. The body of the \<^verbatim>\<open>try\<close> either returns a list (\<open>Some\<close>) or falls
  through (\<open>None\<close>); \<^verbatim>\<open>except Exception\<close> prints the warning and falls through as
  well, to the final \<^verbatim>\<open>return (0,1,0,0,0,1)\<close>. \<^verbatim>\<open>geot[1:-1]\<close> drops the first and the
  last character.
\<close>

definition geotransform_try :: "env \<Rightarrow> string \<Rightarrow> number list option prog" where
  "geotransform_try host filepath =
     then_do (ext_exec host (gdal_query filepath) None) (\<lambda>geot.
     if geot \<noteq> []
     then then_do (py_print (''[DEBUG] GetGeoTransform: '' @ geot)) (\<lambda>_.
          then_do (lift (py_split (butlast (tl geot)) '', '')) (\<lambda>pieces.
          then_do (lift (float_all (float_of_string host) pieces)) (\<lambda>vals.
          ret (Some vals))))
     else ret None)"

definition geotransform :: "env \<Rightarrow> string \<Rightarrow> number list prog" where
  "geotransform host filepath = (\<lambda>w.
     case geotransform_try host filepath w of
       (Inl e, w1) \<Rightarrow>
         then_do (py_print ''[WARNING] GDAL error GetGeoTransform'') (\<lambda>_.
         ret identity_transform) w1
     | (Inr (Some vals), w1) \<Rightarrow> (Inr vals, w1)
     | (Inr None, w1) \<Rightarrow> (Inr identity_transform, w1))"

definition on_modifier :: "nat \<Rightarrow> nat \<Rightarrow> (modifier \<Rightarrow> modifier) \<Rightarrow> unit prog" where
  "on_modifier obj k f = on_object obj (\<lambda>ob. ob\<lparr>modifiers := update_nth k f (modifiers ob)\<rparr>)"

text \<open>\<^verbatim>\<open>bpy.context.object.modifiers[-1]\<close>: the object and the position on its stack.\<close>

definition last_modifier :: "(nat \<times> nat) prog" where
  "last_modifier =
     then_do context_object (\<lambda>ob.
     then_do (reading (\<lambda>w. modifiers (scene_objects w ! ob))) (\<lambda>ms.
     then_do (lift (last_index ms)) (\<lambda>k.
     ret (ob, k))))"

definition add_displace_modifier ::
    "nat \<Rightarrow> nat \<Rightarrow> real \<Rightarrow> string \<Rightarrow> bool \<Rightarrow> (nat \<times> nat) prog" where
  "add_displace_modifier obj tex stren dir apply =
     then_do (select_only obj) (\<lambda>_.
     then_do (ops_object_modifier_add DISPLACE) (\<lambda>_.
     then_do last_modifier (\<lambda>(ob, k).
     then_do (on_modifier ob k (\<lambda>m. m\<lparr>modifier_texture := Some tex\<rparr>)) (\<lambda>_.
     then_do (on_modifier ob k (\<lambda>m. m\<lparr>strength := stren\<rparr>)) (\<lambda>_.
     then_do (on_modifier ob k (\<lambda>m. m\<lparr>direction := dir\<rparr>)) (\<lambda>_.
     then_do (if apply
              then then_do (reading (\<lambda>w. modifier_name (modifiers (scene_objects w ! ob) ! k)))
                     ops_object_modifier_apply
              else ret ()) (\<lambda>_.
     ret (ob, k))))))))"

definition add_decimate_modifier ::
    "nat \<Rightarrow> real \<Rightarrow> bool \<Rightarrow> bool \<Rightarrow> (nat \<times> nat) prog" where
  "add_decimate_modifier obj rat apply show =
     then_do (select_only obj) (\<lambda>_.
     then_do (ops_object_modifier_add DECIMATE) (\<lambda>_.
     then_do last_modifier (\<lambda>(ob, k).
     then_do (on_modifier ob k (\<lambda>m. m\<lparr>show_viewport := show\<rparr>)) (\<lambda>_.
     then_do (on_modifier ob k (\<lambda>m. m\<lparr>ratio := rat\<rparr>)) (\<lambda>_.
     then_do (if apply
              then then_do (reading (\<lambda>w. modifier_name (modifiers (scene_objects w ! ob) ! k)))
                     ops_object_modifier_apply
              else ret ()) (\<lambda>_.
     ret (ob, k)))))))"

text \<open>\<^verbatim>\<open>main\<close>. The result is the value returned, the process's exit status.\<close>

definition main :: "env \<Rightarrow> string list \<Rightarrow> int prog" where
  "main host argv =
     then_do (if ''--'' \<in> set argv
              then then_do (lift (py_index argv ''--'')) (\<lambda>i. ret (drop (i + 1) argv))
              else ret []) (\<lambda>args.
     if length args < 2
     then then_do usage (\<lambda>_. ret 1)
     else
       then_do (open_image (args ! 0)) (\<lambda>image_dem.
       then_do (open_image (args ! 1)) (\<lambda>image_img.
       then_do (reading data_images) (\<lambda>ims.
       then_do (if image_size (ims ! image_dem) \<noteq> image_size (ims ! image_img)
                then py_print ''[WARN] The size of the 2 image differ''
                else ret ()) (\<lambda>_.
       then_do (fix_python_path host None) (\<lambda>_.
       then_do (geotransform host (args ! 0)) (\<lambda>geot.
       then_do (reading (\<lambda>w. image_size (data_images w ! image_dem))) (\<lambda>dem_size.
       then_do (lift (py_getitem geot 1)) (\<lambda>geot1.
       let xsize = py_half (py_times (fst dem_size) (py_abs geot1)) in
       then_do (lift (py_getitem geot 5)) (\<lambda>geot5.
       let ysize = py_half (py_times (snd dem_size) (py_abs geot5)) in
       then_do setup_scene (\<lambda>_.
       then_do (new_plane ''Ground'' (xsize, ysize, Finite 1)) (\<lambda>ground.
       then_do (subdivide ground (py_max xsize ysize)) (\<lambda>_.
       then_do new_material (\<lambda>mat0.
       then_do (on_object ground (\<lambda>ob. ob\<lparr>active_material := Some mat0\<rparr>)) (\<lambda>_.
       then_do (object_active_material ground) (\<lambda>mat1.
       then_do (on_material mat1 (\<lambda>m. m\<lparr>specular_intensity := 0\<rparr>)) (\<lambda>_.
       then_do (object_active_material ground) (\<lambda>mat2.
       then_do (on_material mat2 (\<lambda>m. m\<lparr>material_name := ''Ground''\<rparr>)) (\<lambda>_.
       then_do (object_active_material ground) (\<lambda>mat.
       then_do (on_image image_dem (\<lambda>im. im\<lparr>colorspace_name := ''Linear''\<rparr>)) (\<lambda>_.
       then_do (new_image_texture mat image_dem ''dem'') (\<lambda>texture_dem.
       then_do (reading (\<lambda>w. active_texture_index (data_materials w ! mat))) (\<lambda>idx.
       then_do (on_material mat (\<lambda>m. m\<lparr>use_textures := (use_textures m)[idx := False]\<rparr>)) (\<lambda>_.
       then_do (increment_active_texture_index mat) (\<lambda>_.
       then_do (new_image_texture mat image_img ''img'') (\<lambda>texture_img.
       then_do (add_displace_modifier ground texture_dem 1 ''Z'' False) (\<lambda>_.
       then_do ops_file_pack_all (\<lambda>_.
       then_do (save host (Some ''/tmp/dtm.blend'') False True) (\<lambda>_.
       ret 0)))))))))))))))))))))))))))))"

text \<open>\<^verbatim>\<open>add_hillshade\<close>. \<^verbatim>\<open>os.path.isfile\<close> asks the file system; the raster tool is run
  through \<^verbatim>\<open>subprocess.getstatusoutput\<close>, and its status and output are dropped.\<close>

definition py_getstatusoutput :: "env \<Rightarrow> string \<Rightarrow> (int \<times> string) prog" where
  "py_getstatusoutput host cmd = (\<lambda>w.
     case getstatusoutput host cmd (files w) of
       (r, fs) \<Rightarrow> (r, w\<lparr>commands := commands w @ [cmd], files := fs\<rparr>))"

definition hillshade_png :: "string \<Rightarrow> string" where
  "hillshade_png demfile = demfile @ ''.hillshade.png''"

definition gdaldem_command :: "string \<Rightarrow> string" where
  "gdaldem_command demfile =
     ''gdaldem hillshade '' @ demfile @ '' '' @ hillshade_png demfile @ '' -of png''"

text \<open>\<^verbatim>\<open>material.texture_slots[material.active_texture_index]\<close>, read for an attribute
  access: the position of a filled slot.\<close>

definition active_texture_slot :: "nat \<Rightarrow> nat prog" where
  "active_texture_slot mat = (\<lambda>w.
     let m = data_materials w ! mat in
     case py_getitem (texture_slots m) (active_texture_index m) of
       Inl e \<Rightarrow> (Inl e, w)
     | Inr None \<Rightarrow> (Inl AttributeError, w)
     | Inr (Some sl) \<Rightarrow> (Inr (active_texture_index m), w))"

definition on_texture_slot :: "nat \<Rightarrow> nat \<Rightarrow> (texture_slot \<Rightarrow> texture_slot) \<Rightarrow> unit prog" where
  "on_texture_slot mat k f =
     on_material mat (\<lambda>m. m\<lparr>texture_slots := update_nth k (map_option f) (texture_slots m)\<rparr>)"

definition add_hillshade :: "env \<Rightarrow> string \<Rightarrow> nat \<Rightarrow> unit prog" where
  "add_hillshade host demfile mat =
     then_do (reading files) (\<lambda>fs.
     then_do (if fs (hillshade_png demfile) = None
              then then_do (py_getstatusoutput host (gdaldem_command demfile)) (\<lambda>_. ret ())
              else ret ()) (\<lambda>_.
     then_do (open_image (hillshade_png demfile)) (\<lambda>image_hsh.
     then_do (increment_active_texture_index mat) (\<lambda>_.
     then_do (new_image_texture mat image_hsh ''hsh'') (\<lambda>texture_hsh.
     then_do (on_texture texture_hsh (\<lambda>tx. tx\<lparr>use_normal_map := True\<rparr>)) (\<lambda>_.
     then_do (active_texture_slot mat) (\<lambda>k.
     then_do (on_texture_slot mat k (\<lambda>sl. sl\<lparr>use_map_color_diffuse := False\<rparr>)) (\<lambda>_.
     then_do (on_texture_slot mat k (\<lambda>sl. sl\<lparr>use_map_normal := True\<rparr>)) (\<lambda>_.
     on_texture_slot mat k (\<lambda>sl. sl\<lparr>normal_factor := - (1 / 2)\<rparr>))))))))))"

subsection \<open>Notions of the specification\<close>

text \<open>The text of a printed tuple: \<^verbatim>\<open>'(' + ', '.join(items) + ')'\<close>; an item of it holds no
  comma.\<close>

fun join :: "string \<Rightarrow> string list \<Rightarrow> string" where
  "join sep [] = []"
| "join sep [s] = s"
| "join sep (s # t # ss) = s @ sep @ join sep (t # ss)"

definition printed_tuple :: "string list \<Rightarrow> string" where
  "printed_tuple items = ''('' @ join '', '' items @ '')''"

definition no_comma :: "string \<Rightarrow> bool" where
  "no_comma s = (CHR '','' \<notin> set s)"

text \<open>\<^verbatim>\<open>x >= 0\<close> on a number.\<close>

fun non_negative :: "number \<Rightarrow> bool" where
  "non_negative (Finite r) = (0 \<le> r)"
| "non_negative PosInf = True"
| "non_negative NegInf = False"
| "non_negative NaN = False"

text \<open>Python's \<^verbatim>\<open>round\<close> with one argument: to the nearest integer, a tie to the even
  one.\<close>

definition py_round :: "real \<Rightarrow> int" where
  "py_round x =
     (let f = \<lfloor>x\<rfloor>; d = x - of_int f
      in if d < 1 / 2 then f else if 1 / 2 < d then f + 1 else if even f then f else f + 1)"

text \<open>The command line \<^verbatim>\<open>ext_exec\<close> runs for a query when no interpreter is named.\<close>

definition python_line :: "env \<Rightarrow> string \<Rightarrow> string" where
  "python_line host cmd = python_default host @ '' -c'' @ [CHR 0x22] @ cmd @ [CHR 0x22]"

text \<open>A program that, whenever it returns, returns \<open>v\<close>.\<close>

definition only_returns :: "'a \<Rightarrow> 'a prog \<Rightarrow> bool" where
  "only_returns v m = (\<forall>w r w'. m w = (Inr r, w') \<longrightarrow> r = v)"

text \<open>The arguments of a command line that follow the first \<^verbatim>\<open>--\<close>.\<close>

definition script_args :: "string list \<Rightarrow> string list" where
  "script_args argv = (if ''--'' \<in> set argv then tl (dropWhile (\<lambda>a. a \<noteq> ''--'') argv) else [])"

text \<open>What a run of \<^verbatim>\<open>main\<close> leaves in the scene: the ground plane is the object added
  last; the extent is its scale in x and y; its material and the image behind the
  texture of a slot of that material are found by following the references.\<close>

definition main_ground :: "world \<Rightarrow> object" where
  "main_ground w = last (scene_objects w)"

definition extent :: "world \<Rightarrow> number \<times> number" where
  "extent w = (case scale (main_ground w) of (x, y, z) \<Rightarrow> (x, y))"

definition ground_material :: "world \<Rightarrow> material option" where
  "ground_material w =
     (case active_material (main_ground w) of
        None \<Rightarrow> None
      | Some m \<Rightarrow> if m < length (data_materials w) then Some (data_materials w ! m) else None)"

definition layer_texture :: "world \<Rightarrow> material \<Rightarrow> nat \<Rightarrow> texture option" where
  "layer_texture w m k =
     (if k < length (texture_slots m)
      then (case texture_slots m ! k of
              None \<Rightarrow> None
            | Some sl \<Rightarrow> if slot_texture sl < length (data_textures w)
                        then Some (data_textures w ! slot_texture sl) else None)
      else None)"

definition layer_image :: "world \<Rightarrow> material \<Rightarrow> nat \<Rightarrow> image option" where
  "layer_image w m k =
     (case layer_texture w m k of
        None \<Rightarrow> None
      | Some tx \<Rightarrow> (case texture_image tx of
                     None \<Rightarrow> None
                   | Some i \<Rightarrow> if i < length (data_images w)
                               then Some (data_images w ! i) else None))"

text \<open>How often the raster tool was run for a DEM path.\<close>

definition gdaldem_runs :: "string \<Rightarrow> world \<Rightarrow> nat" where
  "gdaldem_runs demfile w = length (filter (\<lambda>c. c = gdaldem_command demfile) (commands w))"

text \<open>A program that leaves an observation of the world as it was, whatever its outcome.\<close>

definition preserves :: "(world \<Rightarrow> 'b) \<Rightarrow> 'a prog \<Rightarrow> bool" where
  "preserves obs m = (\<forall>w. obs (snd (m w)) = obs w)"

text \<open>What outlives a Blender session: the file system and the commands run so far.\<close>

definition disk :: "world \<Rightarrow> (string \<Rightarrow> file_entry option) \<times> string list" where
  "disk w = (files w, commands w)"

text \<open>Runs of \<^verbatim>\<open>add_hillshade\<close> for one DEM path, one after the other. Each run has its
  own Blender session and material; the file system and the record of the commands run
  so far are what one run hands to the next.\<close>

fun hillshade_runs :: "env \<Rightarrow> string \<Rightarrow> (nat \<times> world) list \<Rightarrow> world \<Rightarrow> world" where
  "hillshade_runs host demfile [] w = w"
| "hillshade_runs host demfile ((mat, session) # runs) w =
     hillshade_runs host demfile runs
       (snd (add_hillshade host demfile mat
          (session\<lparr>files := files w, commands := commands w\<rparr>)))"

subsection \<open>A sample host and a sample scene\<close>

text \<open>A reader of plain decimal literals (\<^verbatim>\<open>-12.5\<close>, \<^verbatim>\<open>3\<close>, \<^verbatim>\<open>0.25\<close>) and of \<^verbatim>\<open>nan\<close>, \<^verbatim>\<open>inf\<close>
  and \<^verbatim>\<open>-inf\<close>, a part of what \<^verbatim>\<open>float\<close> accepts, for the sample host.\<close>

definition digit_value :: "char \<Rightarrow> nat option" where
  "digit_value c =
     (let i = length (takeWhile (\<lambda>d. d \<noteq> c) ''0123456789'')
      in if i < 10 then Some i else None)"

fun digits_value :: "nat \<Rightarrow> string \<Rightarrow> nat option" where
  "digits_value a [] = Some a"
| "digits_value a (c # cs) =
     (case digit_value c of None \<Rightarrow> None | Some d \<Rightarrow> digits_value (10 * a + d) cs)"

definition decimal_float :: "string \<Rightarrow> number option" where
  "decimal_float s =
     (if s = ''nan'' then Some NaN
      else if s = ''inf'' then Some PosInf
      else if s = ''-inf'' then Some NegInf
      else
        let neg = (take 1 s = ''-'');
            body = (if neg then drop 1 s else s);
            whole = takeWhile (\<lambda>c. c \<noteq> CHR ''.'') body;
            frac = drop 1 (dropWhile (\<lambda>c. c \<noteq> CHR ''.'') body)
        in if whole = [] then None
           else case (digits_value 0 whole, digits_value 0 frac) of
                  (Some a, Some b) \<Rightarrow>
                    Some (Finite ((if neg then - 1 else 1) * (real a + real b / 10 ^ length frac)))
                | _ \<Rightarrow> None)"

definition sample_line :: "string \<Rightarrow> string" where
  "sample_line cmd = ''python3.4 -c'' @ [CHR 0x22] @ cmd @ [CHR 0x22]"

text \<open>The sample host answers the geotransform query with a well-formed tuple for
  \<^verbatim>\<open>dem.tif\<close> and for \<^verbatim>\<open>up.tif\<close>, a tuple with a \<^verbatim>\<open>nan\<close> for \<^verbatim>\<open>nan.tif\<close>, an error message for
  \<^verbatim>\<open>noisy.tif\<close>, a tuple cut short for \<^verbatim>\<open>short.tif\<close>, a
  failing subprocess for \<^verbatim>\<open>crash.tif\<close>, and nothing for any other file.\<close>

definition sample_host :: env where
  "sample_host =
     \<lparr>float_of_string = decimal_float,
      python_default = ''python3.4'',
      os_pathsep = '':'',
      getoutput = (\<lambda>line.
        if line = sample_line python_path_query
          then Inr ''/usr/lib/python3.4:/usr/lib/python3.4/site-packages''
        else if line = sample_line (gdal_query ''dem.tif'')
          then Inr ''(0.0, 2.0, 0.0, 0.0, 0.0, -1.0)''
        else if line = sample_line (gdal_query ''up.tif'')
          then Inr ''(0.0, 2.0, 0.0, 0.0, 0.0, 1.0)''
        else if line = sample_line (gdal_query ''nan.tif'')
          then Inr ''(0.0, nan, 0.0, 0.0, 0.0, -1.0)''
        else if line = sample_line (gdal_query ''noisy.tif'')
          then Inr ''ERROR 4: not recognised as a supported file format''
        else if line = sample_line (gdal_query ''short.tif'') then Inr ''(5.0, 2.0, 0.0''
        else if line = sample_line (gdal_query ''crash.tif'')
          then Inl (SubprocessFailure ''fork'')
        else Inr []),
      getstatusoutput = (\<lambda>cmd fs.
        if cmd = gdaldem_command ''dem.tif''
        then (Inr (0, []), fs(hillshade_png ''dem.tif'' \<mapsto> ImageFile 200 100))
        else (Inr (127, ''command not found''), fs)),
      can_save = (\<lambda>path. path = ''/tmp/dtm.blend'')\<rparr>"

definition sample_files :: "string \<Rightarrow> file_entry option" where
  "sample_files =
     [''dem.tif'' \<mapsto> ImageFile 200 100, ''img.tif'' \<mapsto> ImageFile 200 100,
      ''small.tif'' \<mapsto> ImageFile 150 80, ''plain.tif'' \<mapsto> ImageFile 200 100,
      ''short.tif'' \<mapsto> ImageFile 200 100, ''strip.tif'' \<mapsto> ImageFile 0 100,
      ''dot.tif'' \<mapsto> ImageFile 1 1, ''up.tif'' \<mapsto> ImageFile 200 100,
      ''void.tif'' \<mapsto> ImageFile 0 0, ''nan.tif'' \<mapsto> ImageFile 200 100]"

definition sample_world :: world where
  "sample_world =
     \<lparr>stdout = [], stderr = [], files = sample_files, commands = [], sys_path = [],
      data_images = [], data_textures = [], data_materials = [], data_filepath = [],
      scene_objects = [new_scene_object ''Cube'' MeshCube (0, 0, 0)], active = Some 0,
      object_mode = ''OBJECT'',
      scene = \<lparr>render_engine = ''BLENDER_RENDER'', material_mode = ''MULTITEXTURE'',
                unit_system = ''NONE'', frame_type = ''LETTERBOX'',
                horizon_color = (5 / 100, 5 / 100, 5 / 100),
                show_framerate_profile = False\<rparr>,
      areas = [\<lparr>area_type = ''VIEW_3D'',
                 spaces = [\<lparr>space_type = ''VIEW_3D'', viewport_shade = ''SOLID'',
                            clip_end = 1000\<rparr>]\<rparr>],
      saved = []\<rparr>"

text \<open>A session with one material, and the same session on a disk that already holds the
  hillshade of \<^verbatim>\<open>dem.tif\<close>.\<close>

definition sample_session :: world where
  "sample_session = sample_world\<lparr>data_materials := [new_data_material]\<rparr>"

definition shaded_session :: world where
  "shaded_session =
     sample_session\<lparr>files := (files sample_session)(hillshade_png ''dem.tif'' \<mapsto> ImageFile 200 100)\<rparr>"

definition sample_argv :: "string \<Rightarrow> string \<Rightarrow> string list" where
  "sample_argv dem img = [''blender'', ''-P'', ''blend_dtm.py'', ''--'', dem, img]"

section \<open>Properties\<close>

subsection \<open>Programs and builtins\<close>

lemmas prog_defs = ret_def raise_def then_do_def modify_def reading_def lift_def

lemma then_do_known: "m w = (Inr x, w1) \<Longrightarrow> then_do m f w = f x w1"
  by (simp add: then_do_def)

lemma drop_takeWhile_tl: "drop (length (takeWhile P xs) + 1) xs = tl (dropWhile P xs)"
  by (induction xs) simp_all

lemma main_args:
  "(if ''--'' \<in> set argv
    then then_do (lift (py_index argv ''--'')) (\<lambda>i. ret (drop (i + 1) argv))
    else ret []) w = (Inr (script_args argv), w)"
  using drop_takeWhile_tl [of "\<lambda>a. a \<noteq> ''--''" argv]
  by (simp add: prog_defs py_index_def script_args_def)


lemma split_on_plain:
  "no_comma s \<Longrightarrow> split_on '', '' acc (s @ t) = split_on '', '' (rev s @ acc) t"
  by (induction s arbitrary: acc) (auto simp add: no_comma_def)

lemma split_on_item:
  "no_comma s \<Longrightarrow> split_on '', '' [] (s @ '', '' @ t) = s # split_on '', '' [] t"
  using split_on_plain [of s "[]" "'', '' @ t"] by simp

lemma split_on_last: "no_comma s \<Longrightarrow> split_on '', '' [] s = [s]"
  using split_on_plain [of s "[]" "[]"] by simp

lemma split_on_join:
  "items \<noteq> [] \<Longrightarrow> \<forall>s\<in>set items. no_comma s \<Longrightarrow> split_on '', '' [] (join '', '' items) = items"
proof (induction "'', ''" items rule: join.induct)
  case 1
  then show ?case by simp
next
  case (2 s)
  then show ?case by (simp add: split_on_last)
next
  case (3 s t ss)
  then show ?case using split_on_item [of s "join '', '' (t # ss)"] by simp
qed

lemma slice_printed_tuple: "butlast (tl (printed_tuple items)) = join '', '' items"
  by (simp add: printed_tuple_def butlast_append)

lemma float_all_Inr: "float_all pf ss = Inr vs \<longleftrightarrow> map pf ss = map Some vs"
proof (induction ss arbitrary: vs)
  case Nil
  then show ?case by auto
next
  case (Cons s ss)
  show ?case
  proof (cases "float_all pf ss")
    case (Inl e)
    with Cons [of "tl vs"] show ?thesis
      by (cases vs) (auto split: option.splits)
  next
    case (Inr ws)
    with Cons [of ws] Cons [of "tl vs"] show ?thesis
      by (cases vs) (auto split: option.splits)
  qed
qed

lemma float_all_length: "float_all pf ss = Inr vs \<Longrightarrow> length vs = length ss"
  using float_all_Inr [of pf ss vs] by (metis length_map)

lemma float_all_Inl: "(\<exists>e. float_all pf ss = Inl e) \<longleftrightarrow> (\<exists>s\<in>set ss. pf s = None)"
  by (induction ss) (auto split: option.splits sum.splits)

lemma only_returns_ret: "only_returns v (ret v)"
  by (simp add: only_returns_def ret_def)

lemma only_returns_then_do: "(\<And>x. only_returns v (f x)) \<Longrightarrow> only_returns v (then_do m f)"
  by (auto simp add: only_returns_def then_do_def split: prod.splits sum.splits)

lemma only_returns_known:
  "(\<And>w. m w = (Inr x, w)) \<Longrightarrow> only_returns v (f x) \<Longrightarrow> only_returns v (then_do m f)"
  by (auto simp add: only_returns_def then_do_def split: prod.splits sum.splits)

subsection \<open>The functions of the script, one by one\<close>


lemma last_index_snoc: "last_index (xs @ [x]) = Inr (length xs)"
  by (simp add: last_index_def)

lemma new_texture_run:
  "new_texture w = (Inr (length (data_textures w)), w\<lparr>data_textures := data_textures w @ [new_data_texture]\<rparr>)"
  by (simp add: new_texture_def ops_texture_new_def prog_defs last_index_snoc)

lemma new_material_run:
  "new_material w = (Inr (length (data_materials w)), w\<lparr>data_materials := data_materials w @ [new_data_material]\<rparr>)"
  by (simp add: new_material_def ops_material_new_def prog_defs last_index_snoc)

lemma open_image_run:
  "files w p = Some (ImageFile a b) \<Longrightarrow>
   open_image p w = (Inr (length (data_images w)),
     w\<lparr>data_images := data_images w @
       [\<lparr>image_filepath = p, image_size = (a, b), colorspace_name = ''sRGB'', packed = False\<rparr>]\<rparr>)"
  by (simp add: open_image_def ops_image_open_def prog_defs last_index_snoc)

lemma fix_python_path_run:
  "getoutput host (python_line host python_path_query) = Inr pp \<Longrightarrow>
   os_pathsep host \<noteq> [] \<Longrightarrow>
   fix_python_path host py w = (Inr (),
     w\<lparr>commands := commands w @ [python_line host python_path_query],
       sys_path := sys_path w @ split_on (os_pathsep host) [] pp\<rparr>)"
  by (simp add: fix_python_path_def ext_exec_def prog_defs py_split_def python_line_def)

lemma delete_all: "filter (\<lambda>ob. \<not> select ob) (map (\<lambda>ob. ob\<lparr>select := True\<rparr>) xs) = []"
  by (induction xs) simp_all

lemma setup_scene_run:
  "setup_scene w = (Inr (),
     w\<lparr>scene_objects := [new_scene_object ''Lamp'' (Lamp ''SUN'') (0, 0, 300)],
       active := Some 0,
       scene := (scene w)\<lparr>render_engine := ''BLENDER_GAME'', material_mode := ''GLSL'',
         unit_system := ''METRIC'', frame_type := ''EXTEND'',
         horizon_color := (5 / 100, 22 / 100, 4 / 10), show_framerate_profile := True\<rparr>,
       areas := map (\<lambda>a. if area_type a = ''VIEW_3D''
                 then a\<lparr>spaces :=
                        map (\<lambda>sp. if space_type sp = ''VIEW_3D''
                                   then sp\<lparr>viewport_shade := ''TEXTURED'', clip_end := 10000\<rparr>
                                   else sp) (spaces a)\<rparr>
                 else a) (areas w)\<rparr>)"
  by (cases "active w") (simp_all add: setup_scene_def prog_defs ops_object_select_all_def ops_object_delete_def
      ops_object_lamp_add_def ops_object_add_def set_viewport_def delete_all)

lemma geotransform_raise:
  "getoutput host (python_line host (gdal_query p)) = Inl e \<Longrightarrow>
   geotransform host p w = (Inr identity_transform,
     w\<lparr>commands := commands w @ [python_line host (gdal_query p)],
       stdout := stdout w @ [''[WARNING] GDAL error GetGeoTransform'']\<rparr>)"
  by (simp add: geotransform_def geotransform_try_def ext_exec_def prog_defs python_line_def py_print_def)

lemma geotransform_empty:
  "getoutput host (python_line host (gdal_query p)) = Inr [] \<Longrightarrow>
   geotransform host p w = (Inr identity_transform,
     w\<lparr>commands := commands w @ [python_line host (gdal_query p)], stdout := stdout w @ []\<rparr>)"
  by (simp add: geotransform_def geotransform_try_def ext_exec_def prog_defs python_line_def py_print_def)

lemma geotransform_unreadable:
  "getoutput host (python_line host (gdal_query p)) = Inr out \<Longrightarrow> out \<noteq> [] \<Longrightarrow>
   float_all (float_of_string host) (split_on '', '' [] (butlast (tl out))) = Inl e \<Longrightarrow>
   geotransform host p w = (Inr identity_transform,
     w\<lparr>commands := commands w @ [python_line host (gdal_query p)],
       stdout := stdout w @ [''[DEBUG] GetGeoTransform: '' @ out,
                             ''[WARNING] GDAL error GetGeoTransform'']\<rparr>)"
  by (simp add: geotransform_def geotransform_try_def ext_exec_def prog_defs python_line_def py_print_def py_split_def)

lemma geotransform_floats:
  "getoutput host (python_line host (gdal_query p)) = Inr out \<Longrightarrow> out \<noteq> [] \<Longrightarrow>
   float_all (float_of_string host) (split_on '', '' [] (butlast (tl out))) = Inr vals \<Longrightarrow>
   geotransform host p w = (Inr vals,
     w\<lparr>commands := commands w @ [python_line host (gdal_query p)],
       stdout := stdout w @ [''[DEBUG] GetGeoTransform: '' @ out]\<rparr>)"
  by (simp add: geotransform_def geotransform_try_def ext_exec_def prog_defs python_line_def py_print_def py_split_def)

lemma geotransform_run:
  "\<exists>g extra. \<forall>w. geotransform host p w = (Inr g,
     w\<lparr>commands := commands w @ [python_line host (gdal_query p)], stdout := stdout w @ extra\<rparr>)"
proof (cases "getoutput host (python_line host (gdal_query p))")
  case (Inl e)
  then show ?thesis using geotransform_raise by blast
next
  case (Inr out)
  show ?thesis
  proof (cases "out = []")
    case True
    with Inr show ?thesis using geotransform_empty by blast
  next
    case False
    show ?thesis
    proof (cases "float_all (float_of_string host) (split_on '', '' [] (butlast (tl out)))")
      case (Inl e)
      with Inr False show ?thesis using geotransform_unreadable by blast
    next
      case Inr2: (Inr vals)
      with Inr False show ?thesis using geotransform_floats by blast
    qed
  qed
qed

lemma geotransform_run_as:
  assumes "fst (geotransform host p w0) = Inr g"
  shows "\<exists>extra. \<forall>w. geotransform host p w = (Inr g,
     w\<lparr>commands := commands w @ [python_line host (gdal_query p)], stdout := stdout w @ extra\<rparr>)"
proof -
  obtain g' extra where *: "\<forall>w. geotransform host p w = (Inr g',
     w\<lparr>commands := commands w @ [python_line host (gdal_query p)], stdout := stdout w @ extra\<rparr>)"
    using geotransform_run by blast
  with assms have "g' = g" by simp
  with * show ?thesis by blast
qed



lemma warn_if_run:
  "(if c then py_print s else ret ()) w = (Inr (), w\<lparr>stdout := stdout w @ (if c then [s] else [])\<rparr>)"
  by (simp add: py_print_def prog_defs)

lemmas bpy_defs = on_image_def on_texture_def on_material_def on_object_def on_modifier_def
  ops_object_select_all_def ops_object_add_def ops_mesh_primitive_plane_add_def
  context_object_def ops_object_mode_set_def ops_mesh_subdivide_def ops_object_modifier_add_def
  set_active_texture_def active_texture_def increment_active_texture_index_def
  object_active_material_def ops_file_pack_all_def last_modifier_def

lemmas script_defs = new_plane_def select_only_def subdivide_def add_displace_modifier_def
  new_image_texture_def


lemma save_then_ret:
  "p \<noteq> [] \<Longrightarrow> then_do (save host (Some p) a b) (\<lambda>_. ret v) =
     (\<lambda>w. (if can_save host p then Inr v else Inl RuntimeError,
      w\<lparr>saved := saved w @ (if can_save host p then [(p, a, b)] else [])\<rparr>))"
  by (rule ext) (simp add: save_def ops_wm_save_mainfile_def prog_defs)


lemma main_run:
  assumes args: "script_args argv = dem # img # rest"
    and dem: "files w dem = Some (ImageFile dw dh)"
    and img: "files w img = Some (ImageFile iw ih)"
    and path: "getoutput host (python_line host python_path_query) = Inr pp"
    and sep: "os_pathsep host \<noteq> []"
    and geot: "fst (geotransform host dem w) = Inr g"
    and len: "6 \<le> length g"
  shows "\<exists>extra. main host argv w =
    (if can_save host ''/tmp/dtm.blend'' then Inr 0 else Inl RuntimeError,
     w\<lparr>sys_path := sys_path w @ split_on (os_pathsep host) [] pp,
       commands := commands w @
         [python_line host python_path_query, python_line host (gdal_query dem)],
       stdout := stdout w @
         (if (dw, dh) \<noteq> (iw, ih) then [''[WARN] The size of the 2 image differ''] else [])
         @ extra,
       scene := (scene w)
         \<lparr>render_engine := ''BLENDER_GAME'', material_mode := ''GLSL'',
          unit_system := ''METRIC'', frame_type := ''EXTEND'',
          horizon_color := (5 / 100, 22 / 100, 4 / 10), show_framerate_profile := True\<rparr>,
       areas := map (\<lambda>a. if area_type a = ''VIEW_3D''
                  then a\<lparr>spaces :=
                         map (\<lambda>sp. if space_type sp = ''VIEW_3D''
                                    then sp\<lparr>viewport_shade := ''TEXTURED'', clip_end := 10000\<rparr>
                                    else sp) (spaces a)\<rparr>
                  else a) (areas w),
       object_mode := ''OBJECT'',
       data_materials := data_materials w @
         [\<lparr>material_name = ''Ground'', specular_intensity = 0, active_texture_index = 1,
           texture_slots = (replicate 18 None)
             [0 := Some (new_texture_slot (length (data_textures w))),
              1 := Some (new_texture_slot (Suc (length (data_textures w))))],
           use_textures = (replicate 18 True)[0 := False]\<rparr>],
       data_textures := data_textures w @
         [\<lparr>texture_name = ''dem'', texture_type = ''IMAGE'',
           texture_image = Some (length (data_images w)), use_normal_map = False\<rparr>,
          \<lparr>texture_name = ''img'', texture_type = ''IMAGE'',
           texture_image = Some (Suc (length (data_images w))), use_normal_map = False\<rparr>],
       active := Some 1,
       scene_objects :=
         [(new_scene_object ''Lamp'' (Lamp ''SUN'') (0, 0, 300))\<lparr>select := False\<rparr>,
          \<lparr>object_name = ''Ground'', object_data = MeshPlane, location = (0, 0, 0),
           scale = (py_half (py_times dw (py_abs (g ! 1))),
                    py_half (py_times dh (py_abs (g ! 5))), Finite 1),
           select = True,
           active_material = Some (length (data_materials w)),
           modifiers = [(new_modifier DISPLACE)
              \<lparr>modifier_texture := Some (length (data_textures w)), strength := 1,
               direction := ''Z''\<rparr>],
           applied_modifiers = [],
           subdivide_cuts = [py_max (py_half (py_times dw (py_abs (g ! 1))))
                               (py_half (py_times dh (py_abs (g ! 5))))]\<rparr>],
       data_images := map (\<lambda>im. im\<lparr>packed := True\<rparr>) (data_images w) @
         [\<lparr>image_filepath = dem, image_size = (dw, dh), colorspace_name = ''Linear'',
           packed = True\<rparr>,
          \<lparr>image_filepath = img, image_size = (iw, ih), colorspace_name = ''sRGB'',
           packed = True\<rparr>],
       saved := saved w @
         (if can_save host ''/tmp/dtm.blend'' then [(''/tmp/dtm.blend'', False, True)] else [])\<rparr>)"
proof -
  obtain extra where G: "\<And>w. geotransform host dem w = (Inr g,
     w\<lparr>commands := commands w @ [python_line host (gdal_query dem)], stdout := stdout w @ extra\<rparr>)"
    using geotransform_run_as [OF geot] by blast
  have len1: "Suc 0 < length g" "5 < length g" using len by simp_all
  show ?thesis
    apply (rule exI [of _ extra])
    unfolding main_def
    apply (simp only: then_do_known [OF main_args])
    apply (simp add: args save_then_ret split del: if_split)
    apply (simp add: then_do_def open_image_run dem img fix_python_path_run [OF path sep] G
       reading_def lift_def py_getitem_def len1 warn_if_run setup_scene_run new_material_run
       new_texture_run bpy_defs script_defs modify_def ret_def update_nth_def Let_def
       new_scene_object_def new_data_material_def new_data_texture_def new_modifier_def new_texture_slot_def
       last_index_def list_update_append nth_append
       del: split_paired_All split_paired_Ex split del: if_split)
    done
qed

lemma main_result:
  assumes "script_args argv = dem # img # rest"
    and "files w dem = Some (ImageFile dw dh)"
    and "files w img = Some (ImageFile iw ih)"
    and "getoutput host (python_line host python_path_query) = Inr pp"
    and "os_pathsep host \<noteq> []"
    and "fst (geotransform host dem w) = Inr g"
    and "6 \<le> length g"
  shows "fst (main host argv w) =
           (if can_save host ''/tmp/dtm.blend'' then Inr 0 else Inl RuntimeError)"
  using main_run [OF assms]
  apply (elim exE)
  apply (simp only: fst_conv)
  done

lemma main_ground_run:
  assumes "script_args argv = dem # img # rest"
    and "files w dem = Some (ImageFile dw dh)"
    and "files w img = Some (ImageFile iw ih)"
    and "getoutput host (python_line host python_path_query) = Inr pp"
    and "os_pathsep host \<noteq> []"
    and "fst (geotransform host dem w) = Inr g"
    and "6 \<le> length g"
  shows "scene_objects (snd (main host argv w)) =
     [(new_scene_object ''Lamp'' (Lamp ''SUN'') (0, 0, 300))\<lparr>select := False\<rparr>,
      \<lparr>object_name = ''Ground'', object_data = MeshPlane, location = (0, 0, 0),
       scale = (py_half (py_times dw (py_abs (g ! 1))),
                    py_half (py_times dh (py_abs (g ! 5))), Finite 1),
           select = True,
       active_material = Some (length (data_materials w)),
       modifiers = [(new_modifier DISPLACE)
          \<lparr>modifier_texture := Some (length (data_textures w)), strength := 1,
           direction := ''Z''\<rparr>],
       applied_modifiers = [],
       subdivide_cuts = [py_max (py_half (py_times dw (py_abs (g ! 1))))
                               (py_half (py_times dh (py_abs (g ! 5))))]\<rparr>]"
  using main_run [OF assms]
  apply (elim exE)
  apply simp
  done

lemma main_data_run:
  assumes "script_args argv = dem # img # rest"
    and "files w dem = Some (ImageFile dw dh)"
    and "files w img = Some (ImageFile iw ih)"
    and "getoutput host (python_line host python_path_query) = Inr pp"
    and "os_pathsep host \<noteq> []"
    and "fst (geotransform host dem w) = Inr g"
    and "6 \<le> length g"
  shows "data_materials (snd (main host argv w)) = data_materials w @
         [\<lparr>material_name = ''Ground'', specular_intensity = 0, active_texture_index = 1,
           texture_slots = (replicate 18 None)
             [0 := Some (new_texture_slot (length (data_textures w))),
              1 := Some (new_texture_slot (Suc (length (data_textures w))))],
           use_textures = (replicate 18 True)[0 := False]\<rparr>]"
    and "data_textures (snd (main host argv w)) = data_textures w @
         [\<lparr>texture_name = ''dem'', texture_type = ''IMAGE'',
           texture_image = Some (length (data_images w)), use_normal_map = False\<rparr>,
          \<lparr>texture_name = ''img'', texture_type = ''IMAGE'',
           texture_image = Some (Suc (length (data_images w))), use_normal_map = False\<rparr>]"
    and "data_images (snd (main host argv w)) =
         map (\<lambda>im. im\<lparr>packed := True\<rparr>) (data_images w) @
         [\<lparr>image_filepath = dem, image_size = (dw, dh), colorspace_name = ''Linear'',
           packed = True\<rparr>,
          \<lparr>image_filepath = img, image_size = (iw, ih), colorspace_name = ''sRGB'',
           packed = True\<rparr>]"
    and "saved (snd (main host argv w)) = saved w @
         (if can_save host ''/tmp/dtm.blend'' then [(''/tmp/dtm.blend'', False, True)] else [])"
    and "(dw, dh) \<noteq> (iw, ih) \<Longrightarrow>
         ''[WARN] The size of the 2 image differ'' \<in> set (stdout (snd (main host argv w)))"
proof -
  note M = main_run [OF assms]
  show "data_materials (snd (main host argv w)) = data_materials w @
         [\<lparr>material_name = ''Ground'', specular_intensity = 0, active_texture_index = 1,
           texture_slots = (replicate 18 None)
             [0 := Some (new_texture_slot (length (data_textures w))),
              1 := Some (new_texture_slot (Suc (length (data_textures w))))],
           use_textures = (replicate 18 True)[0 := False]\<rparr>]"
    using M by (elim exE) simp
  show "data_textures (snd (main host argv w)) = data_textures w @
         [\<lparr>texture_name = ''dem'', texture_type = ''IMAGE'',
           texture_image = Some (length (data_images w)), use_normal_map = False\<rparr>,
          \<lparr>texture_name = ''img'', texture_type = ''IMAGE'',
           texture_image = Some (Suc (length (data_images w))), use_normal_map = False\<rparr>]"
    using M by (elim exE) simp
  show "data_images (snd (main host argv w)) =
         map (\<lambda>im. im\<lparr>packed := True\<rparr>) (data_images w) @
         [\<lparr>image_filepath = dem, image_size = (dw, dh), colorspace_name = ''Linear'',
           packed = True\<rparr>,
          \<lparr>image_filepath = img, image_size = (iw, ih), colorspace_name = ''sRGB'',
           packed = True\<rparr>]"
    using M by (elim exE) simp
  show "saved (snd (main host argv w)) = saved w @
         (if can_save host ''/tmp/dtm.blend'' then [(''/tmp/dtm.blend'', False, True)] else [])"
    using M by (elim exE) simp
  show "''[WARN] The size of the 2 image differ'' \<in> set (stdout (snd (main host argv w)))"
    if "(dw, dh) \<noteq> (iw, ih)"
    using M that by (elim exE) simp
qed

lemma main_extent_run:
  assumes "script_args argv = dem # img # rest"
    and "files w dem = Some (ImageFile dw dh)"
    and "files w img = Some (ImageFile iw ih)"
    and "getoutput host (python_line host python_path_query) = Inr pp"
    and "os_pathsep host \<noteq> []"
    and "fst (geotransform host dem w) = Inr g"
    and "6 \<le> length g"
  shows "extent (snd (main host argv w)) =
           (py_half (py_times dw (py_abs (g ! 1))), py_half (py_times dh (py_abs (g ! 5))))"
    and "subdivide_cuts (main_ground (snd (main host argv w))) =
           [py_max (py_half (py_times dw (py_abs (g ! 1)))) (py_half (py_times dh (py_abs (g ! 5))))]"
    and "object_name (main_ground (snd (main host argv w))) = ''Ground''"
  by (simp_all add: extent_def main_ground_def main_ground_run [OF assms])

lemma main_only_returns_zero:
  assumes "2 \<le> length (script_args argv)"
  shows "only_returns 0 (main host argv)"
  unfolding main_def
  apply (rule only_returns_known [OF main_args])
  using assms apply (simp add: Let_def)
  apply (intro only_returns_then_do only_returns_ret)
  done

lemma main_usage_run:
  assumes "length (script_args argv) < 2"
  shows "main host argv w = (Inr 1, w\<lparr>stderr := stderr w @ [usage_text]\<rparr>)"
  unfolding main_def
  apply (simp only: then_do_known [OF main_args])
  using assms apply (simp add: usage_def prog_defs)
  done

lemma main_index_error:
  assumes args: "script_args argv = dem # img # rest"
    and dem: "files w dem = Some (ImageFile dw dh)"
    and img: "files w img = Some (ImageFile iw ih)"
    and path: "getoutput host (python_line host python_path_query) = Inr pp"
    and sep: "os_pathsep host \<noteq> []"
    and geot: "fst (geotransform host dem w) = Inr g"
    and len: "length g < 6"
  shows "fst (main host argv w) = Inl IndexError"
proof -
  obtain extra where G: "\<And>w. geotransform host dem w = (Inr g,
     w\<lparr>commands := commands w @ [python_line host (gdal_query dem)], stdout := stdout w @ extra\<rparr>)"
    using geotransform_run_as [OF geot] by blast
  have len5: "\<not> 5 < length g" using len by simp
  show ?thesis
    unfolding main_def
    apply (simp only: then_do_known [OF main_args])
    apply (simp add: args split del: if_split)
    apply (simp add: then_do_def open_image_run dem img fix_python_path_run [OF path sep] G
       reading_def lift_def py_getitem_def len5 warn_if_run Let_def
       del: split_paired_All split_paired_Ex)
    done
qed

subsection \<open>What \<^verbatim>\<open>add_hillshade\<close> does to the disk\<close>

lemma preservesD: "preserves obs m \<Longrightarrow> obs (snd (m w)) = obs w"
  by (simp add: preserves_def)

lemma preserves_ret: "preserves obs (ret x)"
  by (simp add: preserves_def ret_def)

lemma preserves_lift: "preserves obs (lift r)"
  by (simp add: preserves_def lift_def)

lemma preserves_reading: "preserves obs (reading f)"
  by (simp add: preserves_def reading_def)

lemma preserves_then_do:
  "preserves obs m \<Longrightarrow> (\<And>x. preserves obs (f x)) \<Longrightarrow> preserves obs (then_do m f)"
  by (auto simp add: preserves_def then_do_def split: prod.splits sum.splits)
    (metis snd_conv)+

lemma preserves_disk_ops:
  "preserves disk (on_image i f)"
  "preserves disk (on_texture i g)"
  "preserves disk (on_material i h)"
  "preserves disk (on_texture_slot i k s)"
  "preserves disk ops_texture_new"
  "preserves disk (ops_image_open p)"
  "preserves disk (active_texture i)"
  "preserves disk (active_texture_slot i)"
  "preserves disk (set_active_texture i t)"
  "preserves disk (increment_active_texture_index i)"
  by (auto simp add: preserves_def disk_def on_image_def on_texture_def on_material_def
      on_texture_slot_def ops_texture_new_def ops_image_open_def active_texture_def
      active_texture_slot_def set_active_texture_def increment_active_texture_index_def
      modify_def Let_def split: option.splits file_entry.splits sum.splits)

lemma preserves_disk_script:
  "preserves disk new_texture"
  "preserves disk (open_image p)"
  "preserves disk (new_image_texture mat img name)"
  unfolding new_texture_def open_image_def new_image_texture_def
  by (intro preserves_then_do preserves_disk_ops preserves_reading preserves_lift preserves_ret)+

lemma preserves_diskD: "preserves disk m \<Longrightarrow> disk (snd (m w)) = disk w"
  by (simp add: preserves_def)

lemma then_do_reading: "then_do (reading f) k w = k (f w) w"
  by (simp add: then_do_def reading_def)

lemma then_do_ret: "then_do (ret x) k = k x"
  by (rule ext) (simp add: then_do_def ret_def)

lemma tool_step:
  assumes "preserves disk (k ())"
  shows "disk (snd (then_do (then_do (py_getstatusoutput host cmd) (\<lambda>_. ret ())) k w)) =
     (snd (getstatusoutput host cmd (files w)), commands w @ [cmd])"
proof (cases "getstatusoutput host cmd (files w)")
  case (Pair r fs)
  show ?thesis
  proof (cases r)
    case (Inl e)
    with Pair show ?thesis
      by (simp add: then_do_def py_getstatusoutput_def disk_def)
  next
    case (Inr so)
    with Pair show ?thesis
      using preservesD [OF assms, of "w\<lparr>commands := commands w @ [cmd], files := fs\<rparr>"]
      by (simp add: then_do_def py_getstatusoutput_def ret_def disk_def)
  qed
qed

lemma add_hillshade_disk:
  "disk (snd (add_hillshade host d mat w)) =
     (if files w (hillshade_png d) = None
      then (snd (getstatusoutput host (gdaldem_command d) (files w)),
            commands w @ [gdaldem_command d])
      else (files w, commands w))"
proof (cases "files w (hillshade_png d) = None")
  case True
  then show ?thesis
    unfolding add_hillshade_def then_do_reading
    apply (simp only: if_True simp_thms)
    apply (subst tool_step)
     apply (intro preserves_then_do preserves_disk_ops preserves_disk_script)
    apply simp
    done
next
  case False
  then show ?thesis
    unfolding add_hillshade_def then_do_reading
    apply (simp only: if_False then_do_ret simp_thms)
    apply (subst preserves_diskD)
     apply (intro preserves_then_do preserves_disk_ops preserves_disk_script)
    apply (simp add: disk_def)
    done
qed

lemma preserves_images_ops:
  "preserves data_images (on_texture i g)"
  "preserves data_images (on_material i h)"
  "preserves data_images (on_texture_slot i k s)"
  "preserves data_images ops_texture_new"
  "preserves data_images (active_texture i)"
  "preserves data_images (active_texture_slot i)"
  "preserves data_images (set_active_texture i t)"
  "preserves data_images (increment_active_texture_index i)"
  by (auto simp add: preserves_def on_texture_def on_material_def
      on_texture_slot_def ops_texture_new_def active_texture_def
      active_texture_slot_def set_active_texture_def increment_active_texture_index_def
      modify_def Let_def split: option.splits sum.splits)

lemma preserves_images_script:
  "preserves data_images new_texture"
  "preserves data_images (new_image_texture mat img name)"
  unfolding new_texture_def new_image_texture_def
  by (intro preserves_then_do preserves_images_ops preserves_reading preserves_lift preserves_ret)+

lemma preserves_imagesD: "preserves data_images m \<Longrightarrow> data_images (snd (m w)) = data_images w"
  by (simp add: preserves_def)

lemma add_hillshade_opens:
  assumes "files w (hillshade_png d) = Some (ImageFile a b)"
  shows "data_images (snd (add_hillshade host d mat w)) = data_images w @
     [\<lparr>image_filepath = hillshade_png d, image_size = (a, b), colorspace_name = ''sRGB'',
       packed = False\<rparr>]"
  unfolding add_hillshade_def then_do_reading
  apply (simp only: assms option.simps if_False then_do_ret)
  apply (simp only: then_do_known [where m = "open_image (hillshade_png d)" and w = w,
        OF open_image_run [OF assms]])
  apply (subst preserves_imagesD)
   apply (intro preserves_then_do preserves_images_ops preserves_images_script)
  apply simp
  done

lemma add_hillshade_reuse:
  assumes "files w (hillshade_png d) \<noteq> None"
  shows "commands (snd (add_hillshade host d mat w)) = commands w"
    and "files (snd (add_hillshade host d mat w)) = files w"
  using add_hillshade_disk [of host d mat w] assms by (simp_all add: disk_def)

lemma add_hillshade_first:
  assumes "files w (hillshade_png d) = None"
  shows "commands (snd (add_hillshade host d mat w)) = commands w @ [gdaldem_command d]"
    and "files (snd (add_hillshade host d mat w)) =
           snd (getstatusoutput host (gdaldem_command d) (files w))"
  using add_hillshade_disk [of host d mat w] assms by (simp_all add: disk_def)

lemma hillshade_runs_bound:
  assumes ok: "\<And>fs. snd (getstatusoutput host (gdaldem_command d) fs) (hillshade_png d) \<noteq> None"
  shows "gdaldem_runs d (hillshade_runs host d runs w) \<le>
           gdaldem_runs d w + (if files w (hillshade_png d) = None then 1 else 0)"
proof (induction runs arbitrary: w)
  case Nil
  then show ?case by simp
next
  case (Cons run runs)
  obtain mat session where run: "run = (mat, session)" by (cases run)
  let ?w0 = "session\<lparr>files := files w, commands := commands w\<rparr>"
  let ?w1 = "snd (add_hillshade host d mat ?w0)"
  have step: "hillshade_runs host d (run # runs) w = hillshade_runs host d runs ?w1"
    by (simp add: run)
  show ?case
  proof (cases "files w (hillshade_png d) = None")
    case True
    then have "files ?w0 (hillshade_png d) = None" by simp
    from add_hillshade_first [OF this, of host mat]
    have c: "commands ?w1 = commands w @ [gdaldem_command d]"
      and f: "files ?w1 (hillshade_png d) \<noteq> None"
      using ok by simp_all
    from Cons.IH [of ?w1] f c True show ?thesis
      by (simp add: step gdaldem_runs_def)
  next
    case False
    then have "files ?w0 (hillshade_png d) \<noteq> None" by simp
    from add_hillshade_reuse [OF this, of host mat]
    have c: "commands ?w1 = commands w" and f: "files ?w1 = files w"
      by simp_all
    from Cons.IH [of ?w1] f c False show ?thesis
      by (simp add: step gdaldem_runs_def)
  qed
qed

subsection \<open>The sample host, evaluated\<close>

lemma sample_args: "script_args (sample_argv d i) = [d, i]"
  by (simp add: script_args_def sample_argv_def)

lemma sample_files_simps:
  "files sample_world ''dem.tif'' = Some (ImageFile 200 100)"
  "files sample_world ''img.tif'' = Some (ImageFile 200 100)"
  "files sample_world ''small.tif'' = Some (ImageFile 150 80)"
  "files sample_world ''plain.tif'' = Some (ImageFile 200 100)"
  "files sample_world ''short.tif'' = Some (ImageFile 200 100)"
  "files sample_world ''strip.tif'' = Some (ImageFile 0 100)"
  "files sample_world ''dot.tif'' = Some (ImageFile 1 1)"
  "files sample_world ''up.tif'' = Some (ImageFile 200 100)"
  "files sample_world ''void.tif'' = Some (ImageFile 0 0)"
  "files sample_world ''nan.tif'' = Some (ImageFile 200 100)"
  by (simp_all add: sample_world_def sample_files_def)

lemma sample_path:
  "getoutput sample_host (python_line sample_host python_path_query) =
     Inr ''/usr/lib/python3.4:/usr/lib/python3.4/site-packages''"
  by (simp add: sample_host_def python_line_def python_path_query_def sample_line_def gdal_query_def)

lemma sample_sep: "os_pathsep sample_host \<noteq> []"
  by (simp add: sample_host_def)

lemma sample_query_dem:
  "getoutput sample_host (python_line sample_host (gdal_query ''dem.tif'')) =
     Inr ''(0.0, 2.0, 0.0, 0.0, 0.0, -1.0)''"
  by (simp add: sample_host_def python_line_def sample_line_def gdal_query_def python_path_query_def)

lemma sample_query_short:
  "getoutput sample_host (python_line sample_host (gdal_query ''short.tif'')) =
     Inr ''(5.0, 2.0, 0.0''"
  by (simp add: sample_host_def python_line_def sample_line_def gdal_query_def python_path_query_def)

lemma sample_query_plain:
  "getoutput sample_host (python_line sample_host (gdal_query ''plain.tif'')) = Inr []"
  by (simp add: sample_host_def python_line_def sample_line_def gdal_query_def python_path_query_def)

lemma sample_query_noisy:
  "getoutput sample_host (python_line sample_host (gdal_query ''noisy.tif'')) =
     Inr ''ERROR 4: not recognised as a supported file format''"
  by (simp add: sample_host_def python_line_def sample_line_def gdal_query_def python_path_query_def)

lemma sample_query_crash:
  "getoutput sample_host (python_line sample_host (gdal_query ''crash.tif'')) =
     Inl (SubprocessFailure ''fork'')"
  by (simp add: sample_host_def python_line_def sample_line_def gdal_query_def python_path_query_def)

lemma sample_float [simp]: "float_of_string sample_host = decimal_float"
  by (simp add: sample_host_def)

lemma sample_floats_dem:
  "float_all decimal_float (split_on '', '' [] (butlast (tl ''(0.0, 2.0, 0.0, 0.0, 0.0, -1.0)'')))
     = Inr [Finite 0, Finite 2, Finite 0, Finite 0, Finite 0, Finite (- 1)]"
  by (simp add: decimal_float_def digit_value_def)

lemma sample_floats_short:
  "float_all decimal_float (split_on '', '' [] (butlast (tl ''(5.0, 2.0, 0.0''))) = Inr [Finite 5, Finite 2, Finite 0]"
  by (simp add: decimal_float_def digit_value_def)

lemma sample_floats_noisy:
  "float_all decimal_float (split_on '', '' []
     (butlast (tl ''ERROR 4: not recognised as a supported file format''))) = Inl ValueError"
  by (simp add: decimal_float_def digit_value_def)

lemma sample_items:
  "printed_tuple [''0.0'', ''2.0'', ''0.0'', ''0.0'', ''0.0'', ''-1.0''] = ''(0.0, 2.0, 0.0, 0.0, 0.0, -1.0)''"
  "\<forall>s\<in>set [''0.0'', ''2.0'', ''0.0'', ''0.0'', ''0.0'', ''-1.0'']. no_comma s"
  "map decimal_float [''0.0'', ''2.0'', ''0.0'', ''0.0'', ''0.0'', ''-1.0''] = map Some [Finite 0, Finite 2, Finite 0, Finite 0, Finite 0, Finite (- 1)]"
  by (simp_all add: printed_tuple_def no_comma_def decimal_float_def digit_value_def)

lemma sample_geot_dem: "fst (geotransform sample_host ''dem.tif'' w) = Inr [Finite 0, Finite 2, Finite 0, Finite 0, Finite 0, Finite (- 1)]"
proof -
  have ne: "''(0.0, 2.0, 0.0, 0.0, 0.0, -1.0)'' \<noteq> []" by simp
  have f: "float_all (float_of_string sample_host)
      (split_on '', '' [] (butlast (tl ''(0.0, 2.0, 0.0, 0.0, 0.0, -1.0)''))) = Inr [Finite 0, Finite 2, Finite 0, Finite 0, Finite 0, Finite (- 1)]"
    by (simp only: sample_float sample_floats_dem)
  show ?thesis
    by (simp only: geotransform_floats [OF sample_query_dem ne f] fst_conv)
qed

lemma sample_geot_default:
  assumes "getoutput sample_host (python_line sample_host (gdal_query p)) = Inr []"
  shows "fst (geotransform sample_host p w) = Inr identity_transform"
  by (simp add: geotransform_empty [OF assms])

lemma sample_query_dot:
  "getoutput sample_host (python_line sample_host (gdal_query ''dot.tif'')) = Inr []"
  by (simp add: sample_host_def python_line_def sample_line_def gdal_query_def python_path_query_def)

lemma sample_query_strip:
  "getoutput sample_host (python_line sample_host (gdal_query ''strip.tif'')) = Inr []"
  by (simp add: sample_host_def python_line_def sample_line_def gdal_query_def python_path_query_def)

lemma sample_query_void:
  "getoutput sample_host (python_line sample_host (gdal_query ''void.tif'')) = Inr []"
  by (simp add: sample_host_def python_line_def sample_line_def gdal_query_def python_path_query_def)

lemma sample_query_up:
  "getoutput sample_host (python_line sample_host (gdal_query ''up.tif'')) =
     Inr ''(0.0, 2.0, 0.0, 0.0, 0.0, 1.0)''"
  by (simp add: sample_host_def python_line_def sample_line_def gdal_query_def python_path_query_def)

lemma sample_floats_up:
  "float_all decimal_float (split_on '', '' [] (butlast (tl ''(0.0, 2.0, 0.0, 0.0, 0.0, 1.0)'')))
     = Inr [Finite 0, Finite 2, Finite 0, Finite 0, Finite 0, Finite 1]"
  by (simp add: decimal_float_def digit_value_def)

lemma sample_geot_up: "fst (geotransform sample_host ''up.tif'' w) = Inr [Finite 0, Finite 2, Finite 0, Finite 0, Finite 0, Finite 1]"
proof -
  have ne: "''(0.0, 2.0, 0.0, 0.0, 0.0, 1.0)'' \<noteq> []" by simp
  have f: "float_all (float_of_string sample_host)
      (split_on '', '' [] (butlast (tl ''(0.0, 2.0, 0.0, 0.0, 0.0, 1.0)''))) = Inr [Finite 0, Finite 2, Finite 0, Finite 0, Finite 0, Finite 1]"
    by (simp only: sample_float sample_floats_up)
  show ?thesis
    by (simp only: geotransform_floats [OF sample_query_up ne f] fst_conv)
qed

lemma sample_geot_short: "fst (geotransform sample_host ''short.tif'' w) = Inr [Finite 5, Finite 2, Finite 0]"
proof -
  have ne: "''(5.0, 2.0, 0.0'' \<noteq> []" by simp
  have f: "float_all (float_of_string sample_host)
      (split_on '', '' [] (butlast (tl ''(5.0, 2.0, 0.0''))) = Inr [Finite 5, Finite 2, Finite 0]"
    by (simp only: sample_float sample_floats_short)
  show ?thesis
    by (simp only: geotransform_floats [OF sample_query_short ne f] fst_conv)
qed

lemma sample_query_nan:
  "getoutput sample_host (python_line sample_host (gdal_query ''nan.tif'')) =
     Inr ''(0.0, nan, 0.0, 0.0, 0.0, -1.0)''"
  by (simp add: sample_host_def python_line_def sample_line_def gdal_query_def python_path_query_def)

lemma sample_floats_nan:
  "float_all decimal_float (split_on '', '' [] (butlast (tl ''(0.0, nan, 0.0, 0.0, 0.0, -1.0)'')))
     = Inr [Finite 0, NaN, Finite 0, Finite 0, Finite 0, Finite (- 1)]"
  by (simp add: decimal_float_def digit_value_def)

lemma sample_geot_nan:
  "fst (geotransform sample_host ''nan.tif'' w)
     = Inr [Finite 0, NaN, Finite 0, Finite 0, Finite 0, Finite (- 1)]"
proof -
  have ne: "''(0.0, nan, 0.0, 0.0, 0.0, -1.0)'' \<noteq> []" by simp
  have f: "float_all (float_of_string sample_host)
      (split_on '', '' [] (butlast (tl ''(0.0, nan, 0.0, 0.0, 0.0, -1.0)'')))
        = Inr [Finite 0, NaN, Finite 0, Finite 0, Finite 0, Finite (- 1)]"
    by (simp only: sample_float sample_floats_nan)
  show ?thesis
    by (simp only: geotransform_floats [OF sample_query_nan ne f] fst_conv)
qed

lemma identity_length: "6 \<le> length identity_transform"
  by (simp add: identity_transform_def)

lemma sample_tool_writes:
  "\<forall>fs. snd (getstatusoutput sample_host (gdaldem_command ''dem.tif'') fs) (hillshade_png ''dem.tif'')
     \<noteq> None"
  by (simp add: sample_host_def)

lemma sample_tool_fails:
  "snd (getstatusoutput sample_host (gdaldem_command ''img.tif'') fs) = fs"
  by (simp add: sample_host_def gdaldem_command_def hillshade_png_def)

lemma sample_session_disk:
  "commands sample_session = []"
  "files sample_session (hillshade_png ''img.tif'') = None"
  "files sample_session (hillshade_png ''dem.tif'') = None"
  "files shaded_session (hillshade_png ''dem.tif'') = Some (ImageFile 200 100)"
  "commands shaded_session = []"
  by (simp_all add: sample_session_def shaded_session_def sample_world_def sample_files_def
      hillshade_png_def)

lemma sample_can_save: "can_save sample_host ''/tmp/dtm.blend''"
  by (simp add: sample_host_def)

lemma sample_run_result:
  "fst (main sample_host (sample_argv ''dem.tif'' ''img.tif'') sample_world) = Inr 0"
  using main_result [OF sample_args sample_files_simps(1) sample_files_simps(2) sample_path
      sample_sep sample_geot_dem]
  by (simp add: sample_can_save)

lemma sample_run_returns:
  "\<exists>r w'. main sample_host (sample_argv ''dem.tif'' ''img.tif'') sample_world = (Inr r, w')"
  using sample_run_result
  by (cases "main sample_host (sample_argv ''dem.tif'' ''img.tif'') sample_world") simp

section \<open>The claims\<close>

subsection \<open>The geotransform of a raster\<close>

text \<open>
  C1, as the code has it. \<^verbatim>\<open>geotransform\<close> never raises. When the query prints a
  well-formed tuple of six items, each a float literal, the result is the six floats in
  the printed order. It is the identity transform \<open>(0,1,0,0,0,1)\<close> when the query
  prints nothing, when one of the pieces between the separators \<^verbatim>\<open>', '\<close> of the
  output without its first and last character is no float literal, and when the
  query raises. A non-empty output whose pieces all read as floats is returned as the
  list of those floats, whatever the number of its pieces and whatever stands around
  them as first and last character.
\<close>

theorem geotransform_resolves:
  "(\<exists>g. fst (geotransform host p w) = Inr g)
   \<and> (getoutput host (python_line host (gdal_query p)) = Inr (printed_tuple items)
        \<and> length items = 6 \<and> (\<forall>s\<in>set items. no_comma s)
        \<and> map (float_of_string host) items = map Some vals
      \<longrightarrow> fst (geotransform host p w) = Inr vals)
   \<and> (getoutput host (python_line host (gdal_query p)) = Inr []
      \<longrightarrow> fst (geotransform host p w) = Inr identity_transform)
   \<and> (getoutput host (python_line host (gdal_query p)) = Inr out
        \<and> (\<exists>s\<in>set (split_on '', '' [] (butlast (tl out))). float_of_string host s = None)
      \<longrightarrow> fst (geotransform host p w) = Inr identity_transform)
   \<and> (getoutput host (python_line host (gdal_query p)) = Inl e
      \<longrightarrow> fst (geotransform host p w) = Inr identity_transform)
   \<and> (getoutput host (python_line host (gdal_query p)) = Inr printed \<and> printed \<noteq> []
        \<and> float_all (float_of_string host) (split_on '', '' [] (butlast (tl printed))) = Inr floats
      \<longrightarrow> fst (geotransform host p w) = Inr floats)"
proof (intro conjI impI)
  show "\<exists>g. fst (geotransform host p w) = Inr g"
    using geotransform_run [of host p] by (metis fst_conv)
next
  assume h: "getoutput host (python_line host (gdal_query p)) = Inr (printed_tuple items)
        \<and> length items = 6 \<and> (\<forall>s\<in>set items. no_comma s)
        \<and> map (float_of_string host) items = map Some vals"
  then have "items \<noteq> []" by auto
  with h have "split_on '', '' [] (butlast (tl (printed_tuple items))) = items"
    by (simp add: slice_printed_tuple split_on_join)
  moreover have "printed_tuple items \<noteq> []" by (simp add: printed_tuple_def)
  ultimately show "fst (geotransform host p w) = Inr vals"
    using h geotransform_floats [of host p "printed_tuple items" vals w]
    by (simp add: float_all_Inr)
next
  assume "getoutput host (python_line host (gdal_query p)) = Inr []"
  then show "fst (geotransform host p w) = Inr identity_transform"
    by (simp add: geotransform_empty)
next
  assume h: "getoutput host (python_line host (gdal_query p)) = Inr out
        \<and> (\<exists>s\<in>set (split_on '', '' [] (butlast (tl out))). float_of_string host s = None)"
  then obtain e where e: "float_all (float_of_string host) (split_on '', '' [] (butlast (tl out))) = Inl e"
    using float_all_Inl by blast
  show "fst (geotransform host p w) = Inr identity_transform"
  proof (cases "out = []")
    case True
    with h show ?thesis by (simp add: geotransform_empty)
  next
    case False
    with h e show ?thesis by (simp add: geotransform_unreadable)
  qed
next
  assume "getoutput host (python_line host (gdal_query p)) = Inl e"
  then show "fst (geotransform host p w) = Inr identity_transform"
    by (simp add: geotransform_raise)
next
  assume "getoutput host (python_line host (gdal_query p)) = Inr printed \<and> printed \<noteq> []
        \<and> float_all (float_of_string host) (split_on '', '' [] (butlast (tl printed))) = Inr floats"
  then show "fst (geotransform host p w) = Inr floats"
    by (simp add: geotransform_floats)
qed

theorem geotransform_resolves_witness:
  "fst (geotransform sample_host ''dem.tif'' sample_world)
     = Inr [Finite 0, Finite 2, Finite 0, Finite 0, Finite 0, Finite (- 1)]
   \<and> fst (geotransform sample_host ''plain.tif'' sample_world) = Inr identity_transform
   \<and> fst (geotransform sample_host ''noisy.tif'' sample_world) = Inr identity_transform
   \<and> fst (geotransform sample_host ''crash.tif'' sample_world) = Inr identity_transform
   \<and> fst (geotransform sample_host ''short.tif'' sample_world)
     = Inr [Finite 5, Finite 2, Finite 0]"
proof (intro conjI)
  let ?items = "[''0.0'', ''2.0'', ''0.0'', ''0.0'', ''0.0'', ''-1.0'']"
  let ?vals = "[Finite 0, Finite 2, Finite 0, Finite 0, Finite 0, Finite (- 1)]"
  have "getoutput sample_host (python_line sample_host (gdal_query ''dem.tif'')) =
          Inr (printed_tuple ?items)
        \<and> length ?items = 6 \<and> (\<forall>s\<in>set ?items. no_comma s)
        \<and> map (float_of_string sample_host) ?items = map Some ?vals"
    using sample_items by (simp add: sample_query_dem)
  with geotransform_resolves [where host = sample_host and p = "''dem.tif''"
      and w = sample_world and items = ?items and vals = ?vals]
  show "fst (geotransform sample_host ''dem.tif'' sample_world) = Inr ?vals"
    by blast
next
  show "fst (geotransform sample_host ''plain.tif'' sample_world) = Inr identity_transform"
    using geotransform_resolves [where host = sample_host and p = "''plain.tif''"
        and w = sample_world] sample_query_plain
    by blast
next
  let ?out = "''ERROR 4: not recognised as a supported file format''"
  have "\<exists>e. float_all decimal_float (split_on '', '' [] (butlast (tl ?out))) = Inl e"
    using sample_floats_noisy by blast
  then have "\<exists>s\<in>set (split_on '', '' [] (butlast (tl ?out))). float_of_string sample_host s = None"
    by (simp only: float_all_Inl sample_float)
  with geotransform_resolves [where host = sample_host and p = "''noisy.tif''"
      and w = sample_world and out = ?out] sample_query_noisy
  show "fst (geotransform sample_host ''noisy.tif'' sample_world) = Inr identity_transform"
    by blast
next
  show "fst (geotransform sample_host ''crash.tif'' sample_world) = Inr identity_transform"
    using geotransform_resolves [where host = sample_host and p = "''crash.tif''"
        and w = sample_world and e = "SubprocessFailure ''fork''"]
      sample_query_crash
    by blast
next
  have ne: "''(5.0, 2.0, 0.0'' \<noteq> []" by simp
  have f: "float_all (float_of_string sample_host)
      (split_on '', '' [] (butlast (tl ''(5.0, 2.0, 0.0''))) = Inr [Finite 5, Finite 2, Finite 0]"
    by (simp only: sample_float sample_floats_short)
  show "fst (geotransform sample_host ''short.tif'' sample_world)
      = Inr [Finite 5, Finite 2, Finite 0]"
    using geotransform_resolves [where host = sample_host and p = "''short.tif''"
        and w = sample_world and printed = "''(5.0, 2.0, 0.0''"
        and floats = "[Finite 5, Finite 2, Finite 0]"]
      sample_query_short ne f
    by blast
qed

text \<open>
  C1 as stated fails for a malformed output whose pieces happen to read as floats: for
  the tuple cut short \<^verbatim>\<open>(5.0, 2.0, 0.0\<close> the result is the list \<open>[Finite 5, Finite 2, Finite 0]\<close>, not the
  identity transform.
\<close>

theorem geotransform_malformed_counterexample:
  "getoutput sample_host (python_line sample_host (gdal_query ''short.tif'')) = Inr ''(5.0, 2.0, 0.0''
   \<and> fst (geotransform sample_host ''short.tif'' sample_world) = Inr [Finite 5, Finite 2, Finite 0]
   \<and> [Finite 5, Finite 2, Finite 0] \<noteq> identity_transform"
proof -
  have f: "float_all (float_of_string sample_host)
      (split_on '', '' [] (butlast (tl ''(5.0, 2.0, 0.0''))) = Inr [Finite 5, Finite 2, Finite 0]"
    by (simp only: sample_float sample_floats_short)
  have ne: "''(5.0, 2.0, 0.0'' \<noteq> []" by simp
  have "fst (geotransform sample_host ''short.tif'' sample_world) = Inr [Finite 5, Finite 2, Finite 0]"
    by (simp only: geotransform_floats [OF sample_query_short ne f] fst_conv)
  then show ?thesis
    by (simp add: sample_query_short identity_transform_def)
qed

text \<open>
  C10. The branch of \<^verbatim>\<open>geotransform\<close> that succeeds checks no length: a non-empty output
  whose pieces all read as floats is returned as the list of those floats, one for each
  piece, six of them or not. In \<^verbatim>\<open>main\<close>, once both images are open and the Python
  path is fixed, the reads \<^verbatim>\<open>geot[1]\<close> and \<^verbatim>\<open>geot[5]\<close> raise \<^verbatim>\<open>IndexError\<close> exactly when
  the list has fewer than six elements. The identity transform has six.
\<close>

theorem geotransform_no_length_check:
  "(getoutput host (python_line host (gdal_query p)) = Inr out \<and> out \<noteq> []
      \<and> float_all (float_of_string host) (split_on '', '' [] (butlast (tl out))) = Inr vals
    \<longrightarrow> fst (geotransform host p w) = Inr vals
        \<and> length vals = length (split_on '', '' [] (butlast (tl out))))
   \<and> (script_args argv = dem # img # rest
      \<and> files w dem = Some (ImageFile dw dh) \<and> files w img = Some (ImageFile iw ih)
      \<and> getoutput host (python_line host python_path_query) = Inr pp \<and> os_pathsep host \<noteq> []
      \<and> fst (geotransform host dem w) = Inr g
    \<longrightarrow> (fst (main host argv w) = Inl IndexError \<longleftrightarrow> length g < 6))
   \<and> length identity_transform = 6"
proof (intro conjI impI)
  assume h: "getoutput host (python_line host (gdal_query p)) = Inr out \<and> out \<noteq> []
      \<and> float_all (float_of_string host) (split_on '', '' [] (butlast (tl out))) = Inr vals"
  then show "fst (geotransform host p w) = Inr vals"
    by (simp add: geotransform_floats)
  from h show "length vals = length (split_on '', '' [] (butlast (tl out)))"
    using float_all_length by blast
next
  assume h: "script_args argv = dem # img # rest
      \<and> files w dem = Some (ImageFile dw dh) \<and> files w img = Some (ImageFile iw ih)
      \<and> getoutput host (python_line host python_path_query) = Inr pp \<and> os_pathsep host \<noteq> []
      \<and> fst (geotransform host dem w) = Inr g"
  show "fst (main host argv w) = Inl IndexError \<longleftrightarrow> length g < 6"
  proof (cases "length g < 6")
    case True
    with h show ?thesis using main_index_error [of argv dem img rest w dw dh iw ih host pp g]
      by simp
  next
    case False
    then have "6 \<le> length g" by simp
    with h have "fst (main host argv w) =
        (if can_save host ''/tmp/dtm.blend'' then Inr 0 else Inl RuntimeError)"
      using main_result [of argv dem img rest w dw dh iw ih host pp g] by simp
    with False show ?thesis by simp
  qed
next
  show "length identity_transform = 6" by (simp add: identity_transform_def)
qed

theorem geotransform_no_length_check_witness:
  "fst (geotransform sample_host ''short.tif'' sample_world) = Inr [Finite 5, Finite 2, Finite 0]
   \<and> length [Finite 5, Finite 2, Finite 0] = 3
   \<and> fst (main sample_host (sample_argv ''short.tif'' ''img.tif'') sample_world) = Inl IndexError
   \<and> fst (main sample_host (sample_argv ''dem.tif'' ''img.tif'') sample_world) \<noteq> Inl IndexError"
proof -
  have ne: "''(5.0, 2.0, 0.0'' \<noteq> []" by simp
  have f: "float_all (float_of_string sample_host)
      (split_on '', '' [] (butlast (tl ''(5.0, 2.0, 0.0''))) = Inr [Finite 5, Finite 2, Finite 0]"
    by (simp only: sample_float sample_floats_short)
  have "fst (geotransform sample_host ''short.tif'' sample_world) = Inr [Finite 5, Finite 2, Finite 0]"
    using geotransform_no_length_check [where host = sample_host and p = "''short.tif''"
        and out = "''(5.0, 2.0, 0.0''" and vals = "[Finite 5, Finite 2, Finite 0]" and w = sample_world]
      sample_query_short ne f
    by blast
  moreover
  have "fst (main sample_host (sample_argv ''short.tif'' ''img.tif'') sample_world) = Inl IndexError"
    using geotransform_no_length_check [where host = sample_host and w = sample_world
        and argv = "sample_argv ''short.tif'' ''img.tif''" and dem = "''short.tif''"
        and img = "''img.tif''" and rest = "[]" and dw = 200 and dh = 100 and iw = 200
        and ih = 100 and g = "[Finite 5, Finite 2, Finite 0]"]
      sample_args sample_files_simps(5) sample_files_simps(2) sample_path sample_sep
      sample_geot_short [of sample_world]
    by simp
  moreover
  have "fst (main sample_host (sample_argv ''dem.tif'' ''img.tif'') sample_world) \<noteq> Inl IndexError"
    using geotransform_no_length_check [where host = sample_host and w = sample_world
        and argv = "sample_argv ''dem.tif'' ''img.tif''" and dem = "''dem.tif''"
        and img = "''img.tif''" and rest = "[]" and dw = 200 and dh = 100 and iw = 200
        and ih = 100 and g = "[Finite 0, Finite 2, Finite 0, Finite 0, Finite 0, Finite (- 1)]"]
      sample_args sample_files_simps(1) sample_files_simps(2) sample_path sample_sep
      sample_geot_dem [of sample_world]
    by simp
  ultimately show ?thesis by simp
qed

subsection \<open>The command line\<close>

text \<open>
  C6. With fewer than two arguments after the first \<^verbatim>\<open>--\<close> (none at all when there is
  no \<^verbatim>\<open>--\<close>), \<^verbatim>\<open>main\<close> writes the usage message to the error stream and returns 1; the
  world is otherwise as it was, so no mesh has been built. With two arguments or more,
  a run of \<^verbatim>\<open>main\<close> that returns, returns 0.
\<close>

theorem main_usage_exit:
  "(length (script_args argv) < 2 \<longrightarrow>
      main host argv w = (Inr 1, w\<lparr>stderr := stderr w @ [usage_text]\<rparr>)
      \<and> scene_objects (snd (main host argv w)) = scene_objects w)
   \<and> (''--'' \<notin> set argv \<longrightarrow> length (script_args argv) < 2)
   \<and> (\<not> length (script_args argv) < 2 \<longrightarrow>
        (\<forall>r w'. main host argv w = (Inr r, w') \<longrightarrow> r = 0))"
  using main_usage_run [of argv host w] main_only_returns_zero [of argv host]
  by (auto simp add: only_returns_def script_args_def)

theorem main_usage_exit_witness:
  "length (script_args [''blender'', ''-P'', ''blend_dtm.py'', ''--'', ''dem.tif'']) < 2
   \<and> fst (main sample_host [''blender'', ''-P'', ''blend_dtm.py'', ''--'', ''dem.tif'']
            sample_world) = Inr 1
   \<and> ''--'' \<notin> set [''blender'', ''dem.tif'', ''img.tif'']
   \<and> fst (main sample_host [''blender'', ''dem.tif'', ''img.tif''] sample_world) = Inr 1
   \<and> \<not> length (script_args (sample_argv ''dem.tif'' ''img.tif'')) < 2
   \<and> fst (main sample_host (sample_argv ''dem.tif'' ''img.tif'') sample_world) = Inr 0"
proof -
  have one: "length (script_args [''blender'', ''-P'', ''blend_dtm.py'', ''--'', ''dem.tif'']) < 2"
    by (simp add: script_args_def)
  have none: "''--'' \<notin> set [''blender'', ''dem.tif'', ''img.tif'']"
    by simp
  have two: "\<not> length (script_args (sample_argv ''dem.tif'' ''img.tif'')) < 2"
    by (simp add: sample_args)
  obtain r w' where run: "main sample_host (sample_argv ''dem.tif'' ''img.tif'') sample_world = (Inr r, w')"
    using sample_run_returns by blast
  have "r = 0"
    using main_usage_exit [of "sample_argv ''dem.tif'' ''img.tif''" sample_host sample_world] two run
    by blast
  with run have "fst (main sample_host (sample_argv ''dem.tif'' ''img.tif'') sample_world) = Inr 0"
    by simp
  moreover have "fst (main sample_host [''blender'', ''-P'', ''blend_dtm.py'', ''--'', ''dem.tif'']
            sample_world) = Inr 1"
    using main_usage_exit [of "[''blender'', ''-P'', ''blend_dtm.py'', ''--'', ''dem.tif'']"
        sample_host sample_world] one
    by simp
  moreover have "fst (main sample_host [''blender'', ''dem.tif'', ''img.tif''] sample_world) = Inr 1"
    using main_usage_exit [of "[''blender'', ''dem.tif'', ''img.tif'']" sample_host sample_world] none
    by simp
  ultimately show ?thesis using one none two by blast
qed

subsection \<open>The extent and the mesh\<close>

text \<open>
  C2. In a run of \<^verbatim>\<open>main\<close> that gets past the geotransform (two arguments, both images
  readable, the Python path query answered, a transform of six coefficients or more),
  the extent handed to the ground plane is
  \<open>(width * |coefficient 1| / 2, height * |coefficient 5| / 2)\<close> for the width and height
  of the DEM, as Python computes it; for finite coefficients these are the real numbers
  of that name. For a DEM of 200 by 100 with coefficients 2 and 1 it is \<open>(200, 50)\<close>;
  under the identity transform it is \<open>(width / 2, height / 2)\<close>.
\<close>

theorem main_extent:
  assumes "script_args argv = dem # img # rest"
    and "files w dem = Some (ImageFile dw dh)"
    and "files w img = Some (ImageFile iw ih)"
    and "getoutput host (python_line host python_path_query) = Inr pp"
    and "os_pathsep host \<noteq> []"
    and "fst (geotransform host dem w) = Inr g"
    and "6 \<le> length g"
  shows "extent (snd (main host argv w)) =
           (py_half (py_times dw (py_abs (g ! 1))), py_half (py_times dh (py_abs (g ! 5))))
     \<and> (g ! 1 = Finite c1 \<and> g ! 5 = Finite c5 \<longrightarrow>
          extent (snd (main host argv w)) =
            (Finite (real dw * \<bar>c1\<bar> / 2), Finite (real dh * \<bar>c5\<bar> / 2)))
     \<and> object_name (main_ground (snd (main host argv w))) = ''Ground''
     \<and> (dw = 200 \<and> g ! 1 = Finite 2 \<and> dh = 100 \<and> g ! 5 = Finite 1 \<longrightarrow>
          extent (snd (main host argv w)) = (Finite 200, Finite 50))
     \<and> (g = identity_transform \<longrightarrow>
          extent (snd (main host argv w)) = (Finite (real dw / 2), Finite (real dh / 2)))"
  by (simp add: main_extent_run [OF assms] identity_transform_def)

theorem main_extent_witness:
  "extent (snd (main sample_host (sample_argv ''up.tif'' ''img.tif'') sample_world))
     = (Finite 200, Finite 50)
   \<and> extent (snd (main sample_host (sample_argv ''dot.tif'' ''img.tif'') sample_world))
     = (Finite (1 / 2), Finite (1 / 2))"
proof -
  have "extent (snd (main sample_host (sample_argv ''up.tif'' ''img.tif'') sample_world))
      = (Finite 200, Finite 50)"
    using main_extent [OF sample_args sample_files_simps(8) sample_files_simps(2) sample_path
        sample_sep sample_geot_up, of 2 1]
    by simp
  moreover
  have "extent (snd (main sample_host (sample_argv ''dot.tif'' ''img.tif'') sample_world))
      = (Finite (1 / 2), Finite (1 / 2))"
    using main_extent [OF sample_args sample_files_simps(7) sample_files_simps(2) sample_path
        sample_sep sample_geot_default [OF sample_query_dot] identity_length, of 1 1]
    by (simp add: identity_transform_def)
  ultimately show ?thesis by simp
qed

text \<open>
  C3, as the code has it. The value passed to the subdivision of the ground plane as
  \<^verbatim>\<open>number_cuts\<close> is \<open>max(xsize, ysize)\<close> itself: the script neither rounds it nor bounds
  it from below. For the extent \<open>(200, 50)\<close> it is 200.
\<close>

theorem main_subdivide_cuts:
  assumes "script_args argv = dem # img # rest"
    and "files w dem = Some (ImageFile dw dh)"
    and "files w img = Some (ImageFile iw ih)"
    and "getoutput host (python_line host python_path_query) = Inr pp"
    and "os_pathsep host \<noteq> []"
    and "fst (geotransform host dem w) = Inr g"
    and "6 \<le> length g"
  shows "subdivide_cuts (main_ground (snd (main host argv w))) =
           [py_max (fst (extent (snd (main host argv w)))) (snd (extent (snd (main host argv w))))]
     \<and> (extent (snd (main host argv w)) = (Finite x, Finite y) \<longrightarrow>
          subdivide_cuts (main_ground (snd (main host argv w))) = [Finite (max x y)])
     \<and> (extent (snd (main host argv w)) = (Finite 200, Finite 50) \<longrightarrow>
          subdivide_cuts (main_ground (snd (main host argv w))) = [Finite 200])"
  by (auto simp add: main_extent_run [OF assms] py_max_def)

theorem main_subdivide_cuts_witness:
  "subdivide_cuts (main_ground (snd (main sample_host (sample_argv ''dem.tif'' ''img.tif'')
      sample_world))) = [Finite 200]"
proof -
  have "extent (snd (main sample_host (sample_argv ''dem.tif'' ''img.tif'') sample_world))
      = (Finite 200, Finite 50)"
    using main_extent_run(1) [OF sample_args sample_files_simps(1) sample_files_simps(2) sample_path
        sample_sep sample_geot_dem]
    by simp
  then show ?thesis
    using main_subdivide_cuts [OF sample_args sample_files_simps(1) sample_files_simps(2) sample_path
        sample_sep sample_geot_dem, of 200 50]
    by (simp add: py_max_def)
qed

text \<open>
  C3 as stated fails for a DEM of one pixel under the identity transform: the extent is
  \<open>(1/2, 1/2)\<close>, the value passed is \<open>1/2\<close>, which is not \<open>round(1/2)\<close> and is below 1.
\<close>

theorem main_subdivide_cuts_counterexample:
  "extent (snd (main sample_host (sample_argv ''dot.tif'' ''img.tif'') sample_world))
     = (Finite (1 / 2), Finite (1 / 2))
   \<and> subdivide_cuts (main_ground (snd (main sample_host (sample_argv ''dot.tif'' ''img.tif'')
         sample_world))) = [Finite (1 / 2)]
   \<and> Finite (1 / 2) \<noteq> Finite (real_of_int (py_round (max (1 / 2) (1 / 2))))
   \<and> \<not> (1 :: real) \<le> 1 / 2"
  using main_extent_run(1,2) [OF sample_args sample_files_simps(7) sample_files_simps(2) sample_path
        sample_sep sample_geot_default [OF sample_query_dot] identity_length]
  by (simp add: identity_transform_def py_round_def py_max_def)

text \<open>
  C4, as the code has it. When coefficients 1 and 5 of the geotransform are finite
  numbers, both components of the extent are non-negative; the first is 0 when the width
  of the DEM is 0, the second is 0 when its height is 0, and the extent is \<open>(0, 0)\<close> when
  both are 0.
\<close>

theorem main_extent_nonnegative:
  assumes "script_args argv = dem # img # rest"
    and "files w dem = Some (ImageFile dw dh)"
    and "files w img = Some (ImageFile iw ih)"
    and "getoutput host (python_line host python_path_query) = Inr pp"
    and "os_pathsep host \<noteq> []"
    and "fst (geotransform host dem w) = Inr g"
    and "6 \<le> length g"
    and "g ! 1 = Finite c1"
    and "g ! 5 = Finite c5"
  shows "non_negative (fst (extent (snd (main host argv w))))
     \<and> non_negative (snd (extent (snd (main host argv w))))
     \<and> (dw = 0 \<longrightarrow> fst (extent (snd (main host argv w))) = Finite 0)
     \<and> (dh = 0 \<longrightarrow> snd (extent (snd (main host argv w))) = Finite 0)
     \<and> (dw = 0 \<and> dh = 0 \<longrightarrow> extent (snd (main host argv w)) = (Finite 0, Finite 0))"
  using assms(8,9)
  by (simp add: main_extent_run [OF assms(1-7)])

theorem main_extent_nonnegative_witness:
  "non_negative (fst (extent (snd (main sample_host (sample_argv ''strip.tif'' ''img.tif'')
      sample_world))))
   \<and> non_negative (snd (extent (snd (main sample_host (sample_argv ''strip.tif'' ''img.tif'')
      sample_world))))
   \<and> fst (extent (snd (main sample_host (sample_argv ''strip.tif'' ''img.tif'') sample_world)))
       = Finite 0
   \<and> extent (snd (main sample_host (sample_argv ''void.tif'' ''img.tif'') sample_world))
       = (Finite 0, Finite 0)"
proof -
  have one: "identity_transform ! 1 = Finite 1" and five: "identity_transform ! 5 = Finite 1"
    by (simp_all add: identity_transform_def)
  show ?thesis
    using main_extent_nonnegative [OF sample_args sample_files_simps(6) sample_files_simps(2)
        sample_path sample_sep sample_geot_default [OF sample_query_strip] identity_length
        one five]
      main_extent_nonnegative [OF sample_args sample_files_simps(9) sample_files_simps(2)
        sample_path sample_sep sample_geot_default [OF sample_query_void] identity_length
        one five]
    by simp
qed

text \<open>
  C4 as stated fails in two ways. When only one dimension is 0 the other component is
  not: for a DEM of width 0 and height 100 under the identity transform the extent is
  \<open>(0, 50)\<close>, not \<open>(0, 0)\<close>. And a coefficient need not be finite: for the printed tuple
  \<^verbatim>\<open>(0.0, nan, 0.0, 0.0, 0.0, -1.0)\<close> the first component of the extent is \<^verbatim>\<open>nan\<close>, which
  is not non-negative.
\<close>

theorem main_extent_zero_counterexample:
  "files sample_world ''strip.tif'' = Some (ImageFile 0 100)
   \<and> extent (snd (main sample_host (sample_argv ''strip.tif'' ''img.tif'') sample_world))
       = (Finite 0, Finite 50)
   \<and> (Finite 0, Finite 50) \<noteq> (Finite 0, Finite 0)
   \<and> fst (geotransform sample_host ''nan.tif'' sample_world)
       = Inr [Finite 0, NaN, Finite 0, Finite 0, Finite 0, Finite (- 1)]
   \<and> extent (snd (main sample_host (sample_argv ''nan.tif'' ''img.tif'') sample_world))
       = (NaN, Finite 50)
   \<and> \<not> non_negative NaN"
  using main_extent_run(1) [OF sample_args sample_files_simps(6) sample_files_simps(2) sample_path
        sample_sep sample_geot_default [OF sample_query_strip] identity_length]
    main_extent_run(1) [OF sample_args sample_files_simps(10) sample_files_simps(2) sample_path
        sample_sep sample_geot_nan]
  by (simp add: identity_transform_def sample_files_simps sample_geot_nan)

text \<open>
  C7. When the two images differ in size and the scene can be saved, \<^verbatim>\<open>main\<close> prints the
  warning, runs to its end and returns 0; the extent is computed from the width and the
  height of the DEM, and the size of the colour image does not occur in it.
\<close>

theorem main_size_mismatch:
  assumes "script_args argv = dem # img # rest"
    and "files w dem = Some (ImageFile dw dh)"
    and "files w img = Some (ImageFile iw ih)"
    and "getoutput host (python_line host python_path_query) = Inr pp"
    and "os_pathsep host \<noteq> []"
    and "fst (geotransform host dem w) = Inr g"
    and "6 \<le> length g"
    and "can_save host ''/tmp/dtm.blend''"
    and "(dw, dh) \<noteq> (iw, ih)"
  shows "fst (main host argv w) = Inr 0
     \<and> ''[WARN] The size of the 2 image differ'' \<in> set (stdout (snd (main host argv w)))
     \<and> extent (snd (main host argv w)) =
          (py_half (py_times dw (py_abs (g ! 1))), py_half (py_times dh (py_abs (g ! 5))))
     \<and> (g ! 1 = Finite c1 \<and> g ! 5 = Finite c5 \<longrightarrow>
          extent (snd (main host argv w)) =
            (Finite (real dw * \<bar>c1\<bar> / 2), Finite (real dh * \<bar>c5\<bar> / 2)))"
  using assms(8,9)
  by (simp add: main_result [OF assms(1-7)] main_data_run(5) [OF assms(1-7)]
      main_extent_run(1) [OF assms(1-7)])

theorem main_size_mismatch_witness:
  "fst (main sample_host (sample_argv ''dem.tif'' ''small.tif'') sample_world) = Inr 0
   \<and> ''[WARN] The size of the 2 image differ''
        \<in> set (stdout (snd (main sample_host (sample_argv ''dem.tif'' ''small.tif'') sample_world)))
   \<and> extent (snd (main sample_host (sample_argv ''dem.tif'' ''small.tif'') sample_world))
        = (Finite 200, Finite 50)"
  using main_size_mismatch [OF sample_args sample_files_simps(1) sample_files_simps(3) sample_path
        sample_sep sample_geot_dem _ sample_can_save, of 2 "- 1"]
  by simp

subsection \<open>The material and the modifiers\<close>

text \<open>
  C5. After a run of \<^verbatim>\<open>main\<close> on a DEM and an image that can both be read (and that gets
  past the geotransform), the material of the ground plane has, in slot 0, the texture
  \<^verbatim>\<open>dem\<close> on the DEM image, whose colour space is \<^verbatim>\<open>Linear\<close>, and slot 0 is switched off in
  \<^verbatim>\<open>use_textures\<close>; in slot 1 it has the texture \<^verbatim>\<open>img\<close> on the colour image, and slot 1 is
  on. The script never writes the flag of slot 1: it is the value a new material has.
\<close>

theorem main_material_layers:
  assumes "script_args argv = dem # img # rest"
    and "files w dem = Some (ImageFile dw dh)"
    and "files w img = Some (ImageFile iw ih)"
    and "getoutput host (python_line host python_path_query) = Inr pp"
    and "os_pathsep host \<noteq> []"
    and "fst (geotransform host dem w) = Inr g"
    and "6 \<le> length g"
  shows "\<exists>mat. ground_material (snd (main host argv w)) = Some mat
     \<and> map_option texture_name (layer_texture (snd (main host argv w)) mat 0) = Some ''dem''
     \<and> layer_image (snd (main host argv w)) mat 0 =
           Some \<lparr>image_filepath = dem, image_size = (dw, dh), colorspace_name = ''Linear'',
                 packed = True\<rparr>
     \<and> use_textures mat ! 0 = False
     \<and> map_option texture_name (layer_texture (snd (main host argv w)) mat 1) = Some ''img''
     \<and> layer_image (snd (main host argv w)) mat 1 =
           Some \<lparr>image_filepath = img, image_size = (iw, ih), colorspace_name = ''sRGB'',
                 packed = True\<rparr>
     \<and> use_textures mat ! 1 = True"
  by (simp add: ground_material_def layer_texture_def layer_image_def main_ground_def
      main_ground_run [OF assms] main_data_run [OF assms] new_texture_slot_def nth_append)

theorem main_material_layers_witness:
  "\<exists>mat. ground_material (snd (main sample_host (sample_argv ''dem.tif'' ''img.tif'') sample_world))
       = Some mat
     \<and> map_option texture_name (layer_texture
          (snd (main sample_host (sample_argv ''dem.tif'' ''img.tif'') sample_world)) mat 0)
       = Some ''dem''
     \<and> layer_image (snd (main sample_host (sample_argv ''dem.tif'' ''img.tif'') sample_world)) mat 0 =
           Some \<lparr>image_filepath = ''dem.tif'', image_size = (200, 100),
                 colorspace_name = ''Linear'', packed = True\<rparr>
     \<and> use_textures mat ! 0 = False
     \<and> map_option texture_name (layer_texture
          (snd (main sample_host (sample_argv ''dem.tif'' ''img.tif'') sample_world)) mat 1)
       = Some ''img''
     \<and> layer_image (snd (main sample_host (sample_argv ''dem.tif'' ''img.tif'') sample_world)) mat 1 =
           Some \<lparr>image_filepath = ''img.tif'', image_size = (200, 100),
                 colorspace_name = ''sRGB'', packed = True\<rparr>
     \<and> use_textures mat ! 1 = True"
  using main_material_layers [OF sample_args sample_files_simps(1) sample_files_simps(2) sample_path
        sample_sep sample_geot_dem]
  by simp

text \<open>
  C8. In a run of \<^verbatim>\<open>main\<close> that succeeds, the ground plane carries exactly one modifier: a
  Displace modifier that is still on the stack (nothing has been applied), of strength
  1 and direction \<^verbatim>\<open>Z\<close>, whose texture is the one in slot 0 of the material, \<^verbatim>\<open>dem\<close>. There
  is no Decimate modifier; slot 2 of the material is empty and the two textures added
  are \<^verbatim>\<open>dem\<close> and \<^verbatim>\<open>img\<close>, so there is no hillshade layer. The scene is saved once, at
  \<^verbatim>\<open>/tmp/dtm.blend\<close>.
\<close>

theorem main_displace_only:
  assumes "script_args argv = dem # img # rest"
    and "files w dem = Some (ImageFile dw dh)"
    and "files w img = Some (ImageFile iw ih)"
    and "getoutput host (python_line host python_path_query) = Inr pp"
    and "os_pathsep host \<noteq> []"
    and "fst (geotransform host dem w) = Inr g"
    and "6 \<le> length g"
    and "can_save host ''/tmp/dtm.blend''"
  shows "fst (main host argv w) = Inr 0
     \<and> (\<exists>mat sl. ground_material (snd (main host argv w)) = Some mat
          \<and> texture_slots mat ! 0 = Some sl
          \<and> map_option texture_name (layer_texture (snd (main host argv w)) mat 0) = Some ''dem''
          \<and> modifiers (main_ground (snd (main host argv w))) =
               [\<lparr>modifier_type = DISPLACE, modifier_name = ''Displace'',
                 modifier_texture = Some (slot_texture sl), strength = 1, direction = ''Z'',
                 ratio = 1, show_viewport = True\<rparr>]
          \<and> layer_texture (snd (main host argv w)) mat 2 = None)
     \<and> applied_modifiers (main_ground (snd (main host argv w))) = []
     \<and> filter (\<lambda>m. modifier_type m = DECIMATE) (modifiers (main_ground (snd (main host argv w)))) = []
     \<and> map texture_name (drop (length (data_textures w)) (data_textures (snd (main host argv w))))
          = [''dem'', ''img'']
     \<and> saved (snd (main host argv w)) = saved w @ [(''/tmp/dtm.blend'', False, True)]"
  using assms(8)
  by (simp add: main_result [OF assms(1-7)] ground_material_def layer_texture_def main_ground_def
      main_ground_run [OF assms(1-7)] main_data_run [OF assms(1-7)] new_texture_slot_def
      new_modifier_def nth_append)

theorem main_displace_only_witness:
  "fst (main sample_host (sample_argv ''dem.tif'' ''img.tif'') sample_world) = Inr 0
   \<and> map modifier_type (modifiers (main_ground
        (snd (main sample_host (sample_argv ''dem.tif'' ''img.tif'') sample_world)))) = [DISPLACE]
   \<and> saved (snd (main sample_host (sample_argv ''dem.tif'' ''img.tif'') sample_world))
        = [(''/tmp/dtm.blend'', False, True)]"
  using main_displace_only [OF sample_args sample_files_simps(1) sample_files_simps(2) sample_path
        sample_sep sample_geot_dem _ sample_can_save]
  by (auto simp add: sample_world_def)

subsection \<open>The hillshade\<close>

text \<open>
  C9, as the code has it. When the hillshade file of a DEM path (the path with the suffix
  \<^verbatim>\<open>.hillshade.png\<close>) is on disk, \<^verbatim>\<open>add_hillshade\<close> opens that file and runs no command,
  and so does every later run as long as the file is there. Across any number of runs
  the raster tool is run at most once for a DEM path, provided a run of the tool leaves
  its output file on disk.
\<close>

theorem add_hillshade_reuses:
  "(files w (hillshade_png demfile) = Some (ImageFile a b) \<longrightarrow>
      commands (snd (add_hillshade host demfile mat w)) = commands w
      \<and> gdaldem_runs demfile (snd (add_hillshade host demfile mat w)) = gdaldem_runs demfile w
      \<and> files (snd (add_hillshade host demfile mat w)) = files w
      \<and> data_images (snd (add_hillshade host demfile mat w)) = data_images w @
           [\<lparr>image_filepath = hillshade_png demfile, image_size = (a, b),
             colorspace_name = ''sRGB'', packed = False\<rparr>])
   \<and> (files w (hillshade_png demfile) \<noteq> None \<longrightarrow>
        gdaldem_runs demfile (hillshade_runs host demfile runs w) = gdaldem_runs demfile w)
   \<and> ((\<forall>fs. snd (getstatusoutput host (gdaldem_command demfile) fs) (hillshade_png demfile) \<noteq> None)
        \<longrightarrow> gdaldem_runs demfile (hillshade_runs host demfile runs w) \<le> gdaldem_runs demfile w + 1)"
proof (intro conjI impI)
  assume h: "files w (hillshade_png demfile) = Some (ImageFile a b)"
  then have ne: "files w (hillshade_png demfile) \<noteq> None" by simp
  show "commands (snd (add_hillshade host demfile mat w)) = commands w"
    by (rule add_hillshade_reuse(1) [OF ne])
  then show "gdaldem_runs demfile (snd (add_hillshade host demfile mat w)) = gdaldem_runs demfile w"
    by (simp add: gdaldem_runs_def)
  show "files (snd (add_hillshade host demfile mat w)) = files w"
    by (rule add_hillshade_reuse(2) [OF ne])
  show "data_images (snd (add_hillshade host demfile mat w)) = data_images w @
           [\<lparr>image_filepath = hillshade_png demfile, image_size = (a, b),
             colorspace_name = ''sRGB'', packed = False\<rparr>]"
    by (rule add_hillshade_opens [OF h])
next
  assume ne: "files w (hillshade_png demfile) \<noteq> None"
  show "gdaldem_runs demfile (hillshade_runs host demfile runs w) = gdaldem_runs demfile w"
    using ne
  proof (induction runs arbitrary: w)
    case Nil
    then show ?case by simp
  next
    case (Cons run runs)
    obtain m session where run: "run = (m, session)" by (cases run)
    let ?w0 = "session\<lparr>files := files w, commands := commands w\<rparr>"
    let ?w1 = "snd (add_hillshade host demfile m ?w0)"
    from Cons.prems have "files ?w0 (hillshade_png demfile) \<noteq> None" by simp
    from add_hillshade_reuse [OF this, of host m]
    have c: "commands ?w1 = commands w" and f: "files ?w1 = files w"
      by simp_all
    from Cons.IH [of ?w1] Cons.prems f c show ?case
      by (simp add: run gdaldem_runs_def)
  qed
next
  assume "\<forall>fs. snd (getstatusoutput host (gdaldem_command demfile) fs) (hillshade_png demfile) \<noteq> None"
  then have "gdaldem_runs demfile (hillshade_runs host demfile runs w) \<le>
           gdaldem_runs demfile w + (if files w (hillshade_png demfile) = None then 1 else 0)"
    using hillshade_runs_bound [of host demfile runs w] by blast
  then show "gdaldem_runs demfile (hillshade_runs host demfile runs w) \<le> gdaldem_runs demfile w + 1"
    by (simp split: if_splits)
qed

theorem add_hillshade_reuses_witness:
  "commands (snd (add_hillshade sample_host ''dem.tif'' 0 shaded_session)) = []
   \<and> data_images (snd (add_hillshade sample_host ''dem.tif'' 0 shaded_session)) =
        [\<lparr>image_filepath = hillshade_png ''dem.tif'', image_size = (200, 100),
          colorspace_name = ''sRGB'', packed = False\<rparr>]
   \<and> gdaldem_runs ''dem.tif'' (hillshade_runs sample_host ''dem.tif''
         [(0, sample_session), (0, sample_session)] shaded_session) = 0
   \<and> gdaldem_runs ''dem.tif'' (hillshade_runs sample_host ''dem.tif''
         [(0, sample_session), (0, sample_session), (0, sample_session)] sample_session) \<le> 1"
proof -
  have ne: "files shaded_session (hillshade_png ''dem.tif'') \<noteq> None"
    by (simp add: sample_session_disk)
  have zero: "gdaldem_runs ''dem.tif'' shaded_session = 0" "gdaldem_runs ''dem.tif'' sample_session = 0"
    by (simp_all add: gdaldem_runs_def sample_session_disk)
  have images: "data_images shaded_session = []"
    by (simp add: shaded_session_def sample_session_def sample_world_def)
  note thm1 = add_hillshade_reuses [where w = shaded_session and demfile = "''dem.tif''"
      and a = 200 and b = 100 and host = sample_host and mat = 0
      and runs = "[(0, sample_session), (0, sample_session)]"]
  note thm2 = add_hillshade_reuses [where w = sample_session and demfile = "''dem.tif''"
      and host = sample_host
      and runs = "[(0, sample_session), (0, sample_session), (0, sample_session)]"]
  from thm1 sample_session_disk(4) ne zero(1) images
  have "commands (snd (add_hillshade sample_host ''dem.tif'' 0 shaded_session)) = []"
    and "data_images (snd (add_hillshade sample_host ''dem.tif'' 0 shaded_session)) =
        [\<lparr>image_filepath = hillshade_png ''dem.tif'', image_size = (200, 100),
          colorspace_name = ''sRGB'', packed = False\<rparr>]"
    and "gdaldem_runs ''dem.tif'' (hillshade_runs sample_host ''dem.tif''
         [(0, sample_session), (0, sample_session)] shaded_session) = 0"
    by (simp_all add: sample_session_disk(5))
  moreover from thm2 sample_tool_writes zero(2)
  have "gdaldem_runs ''dem.tif'' (hillshade_runs sample_host ''dem.tif''
         [(0, sample_session), (0, sample_session), (0, sample_session)] sample_session) \<le> 1"
    by simp
  ultimately show ?thesis by simp
qed

text \<open>
  C9 as stated fails when the tool leaves no output file (here: a host where the command
  is not found): the file is still missing at the next run, which runs the tool again,
  so two runs for \<^verbatim>\<open>img.tif\<close> run it twice.
\<close>

theorem add_hillshade_twice_counterexample:
  "files sample_session (hillshade_png ''img.tif'') = None
   \<and> gdaldem_runs ''img.tif'' sample_session = 0
   \<and> gdaldem_runs ''img.tif'' (hillshade_runs sample_host ''img.tif''
         [(0, sample_session), (0, sample_session)] sample_session) = 2"
proof -
  define w0 where "w0 = sample_session\<lparr>files := files sample_session,
    commands := commands sample_session\<rparr>"
  define w1 where "w1 = snd (add_hillshade sample_host ''img.tif'' 0 w0)"
  define w2 where "w2 = snd (add_hillshade sample_host ''img.tif'' 0
    (sample_session\<lparr>files := files w1, commands := commands w1\<rparr>))"
  have f0: "files w0 (hillshade_png ''img.tif'') = None" and c0: "commands w0 = []"
    by (simp_all add: w0_def sample_session_disk)
  have c1: "commands w1 = [gdaldem_command ''img.tif'']"
    and f1: "files w1 (hillshade_png ''img.tif'') = None"
    unfolding w1_def
    by (simp_all add: add_hillshade_first [OF f0] c0 f0 sample_tool_fails)
  have f1': "files (sample_session\<lparr>files := files w1, commands := commands w1\<rparr>)
      (hillshade_png ''img.tif'') = None"
    by (simp add: f1)
  have c2: "commands w2 = [gdaldem_command ''img.tif'', gdaldem_command ''img.tif'']"
    unfolding w2_def
    using add_hillshade_first(1) [OF f1', of sample_host 0]
    by (simp add: c1)
  have "hillshade_runs sample_host ''img.tif'' [(0, sample_session), (0, sample_session)]
      sample_session = w2"
    by (simp add: w2_def w1_def w0_def)
  then show ?thesis
    by (simp add: gdaldem_runs_def c2 sample_session_disk)
qed

end
